theory Spec2Isabelle
  imports Main "HOL-Library.Sublist" "HOL-Library.Multiset"
begin

section \<open>Python strings\<close>

text \<open>
  Text is modelled as \<^typ>\<open>string\<close>, one \<^typ>\<open>char\<close> per code point. The model is exact
  for ASCII text: \<open>len\<close> is \<^const>\<open>length\<close>, \<open>s[:n]\<close> is \<^const>\<open>take\<close>,
  \<open>s.startswith(p)\<close> is \<^const>\<open>prefix\<close> and \<open>kw in s\<close> is \<^const>\<open>sublist\<close>.
  Characters outside ASCII are left alone by \<open>upper\<close> and are not white space here.
\<close>

definition isspace :: "char \<Rightarrow> bool" where
  \<comment> \<open>\<open>str.isspace\<close> on ASCII: TAB, LF, VT, FF, CR, FS, GS, RS, US and the blank.\<close>
  "isspace c = (let n = (of_char c :: nat) in (9 \<le> n \<and> n \<le> 13) \<or> (28 \<le> n \<and> n \<le> 32))"

definition strip :: "string \<Rightarrow> string" where
  "strip s = rev (dropWhile isspace (rev (dropWhile isspace s)))"

definition startswith :: "string \<Rightarrow> string \<Rightarrow> bool" where
  "startswith s p = prefix p s"

definition str_in :: "string \<Rightarrow> string \<Rightarrow> bool" where
  \<comment> \<open>\<open>kw in s\<close>\<close>
  "str_in kw s = sublist kw s"

function str_replace :: "string \<Rightarrow> string \<Rightarrow> string \<Rightarrow> string" where
  \<comment> \<open>\<open>s.replace(old, new)\<close>: one pass from the left over non-overlapping occurrences.\<close>
  "str_replace old new s =
     (if old = [] then
        (case s of [] \<Rightarrow> new | c # cs \<Rightarrow> new @ c # str_replace old new cs)
      else if prefix old s then new @ str_replace old new (drop (length old) s)
      else (case s of [] \<Rightarrow> [] | c # cs \<Rightarrow> c # str_replace old new cs))"
  by pat_completeness auto
termination
  by (relation "measure (\<lambda>(old, new, s). length s)") (auto simp: prefix_def)

declare str_replace.simps [simp del]

definition upper_char :: "char \<Rightarrow> char" where
  "upper_char c =
     (let n = (of_char c :: nat) in if 97 \<le> n \<and> n \<le> 122 then char_of (n - 32) else c)"

definition upper :: "string \<Rightarrow> string" where
  "upper s = map upper_char s"

definition digit_char :: "nat \<Rightarrow> char" where
  "digit_char d = char_of (48 + d)"

function str_nat :: "nat \<Rightarrow> string" where
  "str_nat n = (if n < 10 then [digit_char n] else str_nat (n div 10) @ [digit_char (n mod 10)])"
  by pat_completeness auto
termination
  by (relation "measure id") auto

declare str_nat.simps [simp del]

definition str_int :: "int \<Rightarrow> string" where
  \<comment> \<open>\<open>str(i)\<close>, as an f-string renders an integer.\<close>
  "str_int i = (if i < 0 then CHR ''-'' # str_nat (nat (- i)) else str_nat (nat i))"

section \<open>Exceptions\<close>

text \<open>A raised exception, as the code observes it: \<open>type(e).__name__\<close> and \<open>str(e)\<close>.\<close>

datatype exn = Exn (exn_type: string) (exn_msg: string)

section \<open>SQL Generator (\<open>TextToSQLChain.generate_sql\<close>)\<close>

definition template :: string where
  "template =
''You are a SQL expert specializing in Google BigQuery.\<newline>Your task is to generate precise BigQuery SQL based on the user's question.\<newline>\<newline>GLOBAL RULES (ALWAYS FOLLOW):\<newline>{global_memory}\<newline>\<newline>{project_memory}\<newline>\<newline>{schema}\<newline>\<newline>{conversation_history}\<newline>\<newline>IMPORTANT FORMATTING RULES:\<newline>- Return ONLY the SQL query, nothing else\<newline>- Do NOT wrap the query in ```sql``` or any markdown\<newline>- Use proper BigQuery syntax (not MySQL or PostgreSQL)\<newline>- Always use fully qualified table names (project.dataset.table)\<newline>- Include appropriate LIMIT clause (default: LIMIT 100)\<newline>- Optimize for performance and cost\<newline>\<newline>USER QUESTION: {question}\<newline>\<newline>SQL:''"

definition extract_sql :: "string \<Rightarrow> string" where
  \<comment> \<open>Lines 212 to 218: strip the reply, then remove markdown fences if it starts with one.\<close>
  "extract_sql content =
     (let sql = strip content in
      if startswith sql ''```sql'' then strip (str_replace ''```'' '''' (str_replace ''```sql'' '''' sql))
      else if startswith sql ''```'' then strip (str_replace ''```'' '''' sql)
      else sql)"

record sql_result =
  gen_sql :: string
  gen_tokens_used :: int
  gen_generation_time_ms :: int

definition generate_sql :: "(exn + string) \<Rightarrow> int \<Rightarrow> string \<Rightarrow> exn + sql_result" where
  \<comment> \<open>The first argument is the outcome of \<open>chain.ainvoke\<close> (an exception, or the reply's
      \<open>content\<close>); the second is the measured generation time in milliseconds.\<close>
  "generate_sql reply elapsed_ms user_question =
     (case reply of
        Inl e \<Rightarrow> Inl (Exn ''Exception'' (''SQL generation failed: '' @ exn_msg e))
      | Inr content \<Rightarrow>
          (let sql = extract_sql content;
               total_chars = length template + length user_question + length sql
           in Inr \<lparr>gen_sql = sql,
                   gen_tokens_used = int (total_chars div 4),
                   gen_generation_time_ms = elapsed_ms\<rparr>))"

text \<open>
  The two replies the specification compares: the same inner text inside a fence tagged
  \<open>sql\<close> and inside a bare fence, each fence on a line of its own.
\<close>

definition fenced_sql :: "string \<Rightarrow> string" where
  "fenced_sql inner = ''```sql'' @ ''\<newline>'' @ inner @ ''\<newline>'' @ ''```''"

definition fenced_bare :: "string \<Rightarrow> string" where
  "fenced_bare inner = ''```'' @ ''\<newline>'' @ inner @ ''\<newline>'' @ ''```''"

section \<open>Context Assembler (\<open>_load_global_memory\<close>, \<open>_load_project_memory\<close>)\<close>

record global_instruction =
  gi_instruction_text :: string
  gi_priority :: int
  gi_active :: bool

record project_memory =
  pm_project_id :: string
  pm_key :: string
  pm_content :: string

record project_instruction =
  pi_project_id :: string
  pi_instruction_text :: string
  pi_priority :: int
  pi_active :: bool

definition join :: "string \<Rightarrow> string list \<Rightarrow> string" where
  \<comment> \<open>\<open>sep.join(parts)\<close>\<close>
  "join sep parts = (case parts of [] \<Rightarrow> [] | p # ps \<Rightarrow> p @ concat (map (\<lambda>q. sep @ q) ps))"

definition fallback_rules :: string where
  "fallback_rules =
''- Always use LIMIT clause for safety\<newline>- Never use DROP, DELETE, or UPDATE statements\<newline>- Use BigQuery standard SQL syntax\<newline>- Optimize queries for cost (avoid SELECT *, use partitions when available)''"

definition no_rules :: string where
  "no_rules = ''No project-specific rules defined.''"

definition active_global_instructions :: "global_instruction list \<Rightarrow> global_instruction list" where
  \<comment> \<open>The query of lines 48 to 53: active rows, ordered by priority.\<close>
  "active_global_instructions tbl = sort_key gi_priority (filter gi_active tbl)"

definition load_global_memory :: "global_instruction list \<Rightarrow> string" where
  "load_global_memory tbl =
     (let instructions = active_global_instructions tbl in
      if instructions = [] then fallback_rules
      else join ''\<newline>'' (map (\<lambda>inst. ''- '' @ gi_instruction_text inst) instructions))"

definition project_rules :: "project_memory list \<Rightarrow> string \<Rightarrow> project_memory list" where
  \<comment> \<open>The query of lines 67 to 71.\<close>
  "project_rules tbl project_id = filter (\<lambda>r. pm_project_id r = project_id) tbl"

definition active_project_instructions ::
  "project_instruction list \<Rightarrow> string \<Rightarrow> project_instruction list" where
  \<comment> \<open>The query of lines 74 to 80.\<close>
  "active_project_instructions tbl project_id =
     sort_key pi_priority (filter pi_active (filter (\<lambda>i. pi_project_id i = project_id) tbl))"

definition render_rule :: "project_memory \<Rightarrow> string" where
  "render_rule rule = ''- '' @ pm_key rule @ '': '' @ pm_content rule @ ''\<newline>''"

definition render_instruction :: "project_instruction \<Rightarrow> string" where
  "render_instruction inst = ''- '' @ pi_instruction_text inst @ ''\<newline>''"

definition load_project_memory ::
  "project_memory list \<Rightarrow> project_instruction list \<Rightarrow> string \<Rightarrow> string" where
  "load_project_memory mem_tbl inst_tbl project_id =
     (let rules = project_rules mem_tbl project_id;
          instructions = active_project_instructions inst_tbl project_id;
          memory_text =
            (if rules \<noteq> []
             then ''BUSINESS RULES & DOMAIN KNOWLEDGE:\<newline>'' @ concat (map render_rule rules) @ ''\<newline>''
             else [])
            @ (if instructions \<noteq> []
               then ''PROJECT-SPECIFIC INSTRUCTIONS:\<newline>'' @ concat (map render_instruction instructions)
               else [])
      in if memory_text \<noteq> [] then memory_text else no_rules)"

text \<open>Example tables.\<close>

definition example_memory :: "project_memory list" where
  "example_memory =
     [\<lparr>pm_project_id = ''p1'', pm_key = ''revenue'', pm_content = ''gross - returns''\<rparr>,
      \<lparr>pm_project_id = ''p2'', pm_key = ''other'', pm_content = ''x''\<rparr>]"

definition example_instructions :: "project_instruction list" where
  "example_instructions =
     [\<lparr>pi_project_id = ''p1'', pi_instruction_text = ''second'', pi_priority = 5, pi_active = True\<rparr>,
      \<lparr>pi_project_id = ''p1'', pi_instruction_text = ''off'', pi_priority = 0, pi_active = False\<rparr>,
      \<lparr>pi_project_id = ''p1'', pi_instruction_text = ''first'', pi_priority = 1, pi_active = True\<rparr>]"

definition example_globals :: "global_instruction list" where
  "example_globals =
     [\<lparr>gi_instruction_text = ''retired'', gi_priority = 0, gi_active = False\<rparr>]"

section \<open>Safety Gate (\<open>_is_dangerous_sql\<close>)\<close>

definition forbidden_keywords :: "string list" where
  "forbidden_keywords = [''DROP'', ''DELETE'', ''TRUNCATE'', ''ALTER'', ''CREATE'', ''UPDATE'']"

fun any_keyword_in :: "string list \<Rightarrow> string \<Rightarrow> bool" where
  \<comment> \<open>The loop of lines 161 to 165.\<close>
  "any_keyword_in [] sql_upper = False"
| "any_keyword_in (keyword # rest) sql_upper =
     (if str_in keyword sql_upper then True else any_keyword_in rest sql_upper)"

definition is_dangerous_sql :: "string \<Rightarrow> bool" where
  "is_dangerous_sql sql = (let sql_upper = upper sql in any_keyword_in forbidden_keywords sql_upper)"

text \<open>
  The contract in the specification's words: a keyword occurs in the statement as a
  case-insensitive substring when it matches, letter by letter and ignoring case, at some
  position of the statement.
\<close>

fun ci_prefix :: "string \<Rightarrow> string \<Rightarrow> bool" where
  "ci_prefix [] s = True"
| "ci_prefix (k # ks) [] = False"
| "ci_prefix (k # ks) (c # cs) = (upper_char c = upper_char k \<and> ci_prefix ks cs)"

fun ci_substring :: "string \<Rightarrow> string \<Rightarrow> bool" where
  "ci_substring kw [] = ci_prefix kw []"
| "ci_substring kw (c # cs) = (ci_prefix kw (c # cs) \<or> ci_substring kw cs)"

section \<open>Query Executor (\<open>BigQueryService.execute_query\<close>)\<close>

record column =
  col_name :: string
  col_type :: string

type_synonym row = "(string \<times> string) list"

record raw_result =
  raw_rows :: "row list"
  raw_schema :: "column list"
  raw_total_bytes_processed :: "int option"

record exec_result =
  res_rows :: "row list"
  res_schema :: "column list"
  res_rows_returned :: int
  res_execution_time_ms :: int
  res_bytes_processed :: int

record project =
  credentials_encrypted :: "string option"

section \<open>Result Interpreter\<close>

record chart =
  chart_type :: string
  chart_title :: string

definition generate_basic_insights :: "exec_result \<Rightarrow> string" where
  "generate_basic_insights result =
     (let rows_count = res_rows_returned result in
      if rows_count = 0 then ''No results found for your query.''
      else ''Query returned '' @ str_int rows_count @ '' row(s). '')"

definition suggest_chart :: "exec_result \<Rightarrow> chart option" where
  "suggest_chart result =
     (let schema = res_schema result;
          rows_count = res_rows_returned result;
          otherwise =
            (if length schema \<ge> 3 then Some \<lparr>chart_type = ''table'', chart_title = ''Data Table''\<rparr>
             else Some \<lparr>chart_type = ''table'', chart_title = ''Data View''\<rparr>)
      in if rows_count = 0 \<or> length schema = 0 then None
         else if length schema = 1
           then Some \<lparr>chart_type = ''metric'', chart_title = ''Single Value''\<rparr>
         else if length schema = 2 then
           (let col1_type = col_type (schema ! 0); col2_type = col_type (schema ! 1) in
            if col1_type \<in> set [''DATE'', ''DATETIME'', ''TIMESTAMP'']
              then Some \<lparr>chart_type = ''line'', chart_title = ''Trend Over Time''\<rparr>
            else if col1_type = ''STRING'' \<and> col2_type \<in> set [''INTEGER'', ''FLOAT'', ''NUMERIC'']
              then Some \<lparr>chart_type = ''bar'', chart_title = ''Comparison''\<rparr>
            else otherwise)
         else otherwise)"

text \<open>An execution result with the given column types and number of rows, for examples.\<close>

definition result_of :: "string list \<Rightarrow> int \<Rightarrow> exec_result" where
  "result_of types n =
     \<lparr>res_rows = replicate (nat n) [],
      res_schema = map (\<lambda>t. \<lparr>col_name = ''c'', col_type = t\<rparr>) types,
      res_rows_returned = n, res_execution_time_ms = 0, res_bytes_processed = 0\<rparr>"

section \<open>Database, session and environment\<close>

record query_log =
  log_id :: nat
  log_user_id :: string
  log_project_id :: string
  log_conversation_id :: "string option"
  log_user_question :: string
  log_generated_sql :: "string option"
  log_sql_generation_time_ms :: "int option"
  log_sql_tokens_used :: "int option"
  log_execution_status :: "string option"
  log_execution_time_ms :: "int option"
  log_rows_returned :: "int option"
  log_bytes_processed :: "int option"
  log_error_message :: "string option"
  log_error_type :: "string option"
  log_model_used :: string
  log_ip_address :: "string option"
  log_user_agent :: "string option"

record conversation =
  conv_title :: "string option"

record message =
  msg_conversation_id :: string
  msg_role :: string
  msg_content :: string
  msg_tokens_used :: int

text \<open>
  What the session holds between \<open>add\<close> and \<open>commit\<close>: new rows, and the changed title of a
  loaded conversation.
\<close>

datatype pending = NewLog query_log | NewMessage message | SetTitle string string

record world =
  projects :: "string \<rightharpoonup> project"
  conversations :: "string \<rightharpoonup> conversation"
  messages :: "message list"
  query_logs :: "query_log list"
  session :: "pending list"
  warehouse_calls :: "string list"

text \<open>
  The outside world of one invocation: the fresh identifier, the reply of the language model,
  the warehouse, the measured times, and whether each of the two \<open>commit\<close> calls raises.
\<close>

record env =
  uuid4 :: nat
  llm_reply :: "exn + string"
  generation_time_ms :: int
  client_error :: "exn option"
  warehouse_reply :: "string \<Rightarrow> exn + raw_result"
  execution_time_ms :: int
  total_time_ms :: int
  commit_try :: "exn option"
  commit_handler :: "exn option"

fun same_log :: "nat \<Rightarrow> pending \<Rightarrow> bool" where
  "same_log i (NewLog l) = (log_id l = i)"
| "same_log i (NewMessage m) = False"
| "same_log i (SetTitle c t) = False"

definition db_add_log :: "query_log \<Rightarrow> world \<Rightarrow> world" where
  \<comment> \<open>\<open>db.add(log_entry)\<close>: the session holds the object once, in its latest state.\<close>
  "db_add_log l w =
     (if list_ex (same_log (log_id l)) (session w)
      then w\<lparr>session := map (\<lambda>p. if same_log (log_id l) p then NewLog l else p) (session w)\<rparr>
      else w\<lparr>session := session w @ [NewLog l]\<rparr>)"

definition db_add_message :: "message \<Rightarrow> world \<Rightarrow> world" where
  "db_add_message m w = w\<lparr>session := session w @ [NewMessage m]\<rparr>"

fun flush :: "world \<Rightarrow> pending \<Rightarrow> world" where
  "flush w (NewLog l) = w\<lparr>query_logs := query_logs w @ [l]\<rparr>"
| "flush w (NewMessage m) = w\<lparr>messages := messages w @ [m]\<rparr>"
| "flush w (SetTitle c t) =
     (case conversations w c of
        None \<Rightarrow> w
      | Some conv \<Rightarrow> w\<lparr>conversations := (conversations w)(c \<mapsto> conv\<lparr>conv_title := Some t\<rparr>)\<rparr>)"

definition db_commit :: "exn option \<Rightarrow> world \<Rightarrow> (exn + unit) \<times> world" where
  \<comment> \<open>\<open>db.commit()\<close>: either everything pending is written, or the call raises and the
      transaction is rolled back, which empties the session.\<close>
  "db_commit outcome w =
     (case outcome of
        Some e \<Rightarrow> (Inl e, w\<lparr>session := []\<rparr>)
      | None \<Rightarrow> (Inr (), (foldl flush w (session w))\<lparr>session := []\<rparr>))"


section \<open>Query Executor, continued\<close>

definition get_client :: "env \<Rightarrow> world \<Rightarrow> string \<Rightarrow> exn + unit" where
  "get_client env w project_id =
     (case projects w project_id of
        None \<Rightarrow> Inl (Exn ''ValueError'' ''BigQuery credentials not configured for this project'')
      | Some p \<Rightarrow>
          (case credentials_encrypted p of
             None \<Rightarrow> Inl (Exn ''ValueError'' ''BigQuery credentials not configured for this project'')
           | Some c \<Rightarrow>
               if c = [] then Inl (Exn ''ValueError'' ''BigQuery credentials not configured for this project'')
               else (case client_error env of Some e \<Rightarrow> Inl e | None \<Rightarrow> Inr ())))"

definition execute_query :: "env \<Rightarrow> world \<Rightarrow> string \<Rightarrow> string \<Rightarrow> (exn + exec_result) \<times> world" where
  \<comment> \<open>Every exception is re-raised as \<open>Exception("Query execution failed: ...")\<close>. The
      statement is recorded in \<^const>\<open>warehouse_calls\<close> when \<open>client.query\<close> is reached.\<close>
  "execute_query env w project_id sql =
     (case get_client env w project_id of
        Inl e \<Rightarrow> (Inl (Exn ''Exception'' (''Query execution failed: '' @ exn_msg e)), w)
      | Inr client \<Rightarrow>
          (let w' = w\<lparr>warehouse_calls := warehouse_calls w @ [sql]\<rparr> in
           case warehouse_reply env sql of
             Inl e \<Rightarrow> (Inl (Exn ''Exception'' (''Query execution failed: '' @ exn_msg e)), w')
           | Inr results \<Rightarrow>
               (Inr \<lparr>res_rows = raw_rows results,
                     res_schema = raw_schema results,
                     res_rows_returned = int (length (raw_rows results)),
                     res_execution_time_ms = execution_time_ms env,
                     res_bytes_processed =
                       (case raw_total_bytes_processed results of None \<Rightarrow> 0 | Some b \<Rightarrow> b)\<rparr>,
                w')))"

section \<open>Orchestrator (\<open>QueryService\<close>)\<close>

record response =
  resp_query_id :: nat
  resp_sql :: "string option"
  resp_result :: "exec_result option"
  resp_insights :: "string option"
  resp_suggested_chart :: "chart option"
  resp_tokens_used :: int
  resp_sql_generation_time_ms :: int
  resp_total_time_ms :: int
  resp_error :: "string option"

record direct_response =
  dresp_sql :: string
  dresp_result :: "exec_result option"
  dresp_total_time_ms :: int
  dresp_error :: "string option"

definition truthy :: "string option \<Rightarrow> bool" where
  \<comment> \<open>Python's truth value of an optional string: \<open>None\<close> and \<open>""\<close> are false.\<close>
  "truthy x = (case x of None \<Rightarrow> False | Some s \<Rightarrow> s \<noteq> [])"

definition save_to_conversation :: "world \<Rightarrow> string \<Rightarrow> string \<Rightarrow> string \<Rightarrow> int \<Rightarrow> world" where
  "save_to_conversation w conversation_id question sql tokens =
     (let user_message =
            \<lparr>msg_conversation_id = conversation_id, msg_role = ''user'',
             msg_content = question, msg_tokens_used = 0\<rparr>;
          w1 = db_add_message user_message w;
          assistant_content = ''Generated SQL:\<newline>```sql\<newline>'' @ sql @ ''\<newline>```'';
          assistant_message =
            \<lparr>msg_conversation_id = conversation_id, msg_role = ''assistant'',
             msg_content = assistant_content, msg_tokens_used = tokens\<rparr>;
          w2 = db_add_message assistant_message w1
      in case conversations w2 conversation_id of
           None \<Rightarrow> w2
         | Some conv \<Rightarrow>
             if \<not> truthy (conv_title conv)
             then w2\<lparr>session := session w2 @ [SetTitle conversation_id (take 100 question)]\<rparr>
             else w2)"

definition new_log_entry ::
  "env \<Rightarrow> string \<Rightarrow> string \<Rightarrow> string \<Rightarrow> string option \<Rightarrow> string \<Rightarrow> string option \<Rightarrow> string option
     \<Rightarrow> query_log" where
  \<comment> \<open>Lines 45 to 54.\<close>
  "new_log_entry env project_id user_id question conversation_id model ip_address user_agent =
     \<lparr>log_id = uuid4 env, log_user_id = user_id, log_project_id = project_id,
      log_conversation_id = conversation_id, log_user_question = question,
      log_generated_sql = None, log_sql_generation_time_ms = None, log_sql_tokens_used = None,
      log_execution_status = None, log_execution_time_ms = None, log_rows_returned = None,
      log_bytes_processed = None, log_error_message = None, log_error_type = None,
      log_model_used = model, log_ip_address = ip_address, log_user_agent = user_agent\<rparr>"

definition try_block ::
  "env \<Rightarrow> world \<Rightarrow> query_log \<Rightarrow> string \<Rightarrow> string \<Rightarrow> string option
     \<Rightarrow> (exn + response) \<times> query_log \<times> world" where
  \<comment> \<open>Lines 56 to 129. Returns the response or the exception raised, with the log entry and the
      world as they are at that point.\<close>
  "try_block env w log_entry project_id question conversation_id =
     (case generate_sql (llm_reply env) (generation_time_ms env) question of
        Inl e \<Rightarrow> (Inl e, log_entry, w)
      | Inr sql_result \<Rightarrow>
          (let log1 = log_entry\<lparr>log_generated_sql := Some (gen_sql sql_result),
                                log_sql_generation_time_ms := Some (gen_generation_time_ms sql_result),
                                log_sql_tokens_used := Some (gen_tokens_used sql_result)\<rparr>
           in if is_dangerous_sql (gen_sql sql_result)
              then (Inl (Exn ''Exception''
                          ''SQL query contains forbidden operations (DROP, DELETE, etc.)''),
                    log1, w)
              else
                (case execute_query env w project_id (gen_sql sql_result) of
                   (Inl e, w1) \<Rightarrow> (Inl e, log1, w1)
                 | (Inr execution_result, w1) \<Rightarrow>
                     (let log2 = log1\<lparr>log_execution_status := Some ''success'',
                                       log_execution_time_ms :=
                                         Some (res_execution_time_ms execution_result),
                                       log_rows_returned := Some (res_rows_returned execution_result),
                                       log_bytes_processed :=
                                         Some (res_bytes_processed execution_result)\<rparr>;
                          insights = generate_basic_insights execution_result;
                          chart_suggestion = suggest_chart execution_result;
                          w2 = db_add_log log2 w1;
                          w3 = (case conversation_id of
                                  None \<Rightarrow> w2
                                | Some cid \<Rightarrow>
                                    if cid \<noteq> []
                                    then save_to_conversation w2 cid question (gen_sql sql_result)
                                           (gen_tokens_used sql_result)
                                    else w2)
                      in case db_commit (commit_try env) w3 of
                           (Inl e, w4) \<Rightarrow> (Inl e, log2, w4)
                         | (Inr done, w4) \<Rightarrow>
                             (Inr \<lparr>resp_query_id = log_id log_entry,
                                   resp_sql = Some (gen_sql sql_result),
                                   resp_result = Some execution_result,
                                   resp_insights = Some insights,
                                   resp_suggested_chart = chart_suggestion,
                                   resp_tokens_used = gen_tokens_used sql_result,
                                   resp_sql_generation_time_ms = gen_generation_time_ms sql_result,
                                   resp_total_time_ms = total_time_ms env,
                                   resp_error = None\<rparr>,
                              log2, w4)))))"

definition handler :: "env \<Rightarrow> exn \<Rightarrow> query_log \<Rightarrow> world \<Rightarrow> (exn + response) \<times> world" where
  \<comment> \<open>Lines 131 to 154. An exception of \<open>commit\<close> here leaves the function.\<close>
  "handler env e log_entry w =
     (let log_failed = log_entry\<lparr>log_execution_status := Some ''failed'',
                                  log_error_message := Some (exn_msg e),
                                  log_error_type := Some (exn_type e)\<rparr>;
          w1 = db_add_log log_failed w
      in case db_commit (commit_handler env) w1 of
           (Inl e2, w2) \<Rightarrow> (Inl e2, w2)
         | (Inr done, w2) \<Rightarrow>
             (Inr \<lparr>resp_query_id = log_id log_entry,
                   resp_sql = log_generated_sql log_failed,
                   resp_result = None,
                   resp_insights = None,
                   resp_suggested_chart = None,
                   resp_tokens_used =
                     (case log_sql_tokens_used log_failed of None \<Rightarrow> 0 | Some t \<Rightarrow> t),
                   resp_sql_generation_time_ms =
                     (case log_sql_generation_time_ms log_failed of None \<Rightarrow> 0 | Some t \<Rightarrow> t),
                   resp_total_time_ms = total_time_ms env,
                   resp_error = Some (exn_msg e)\<rparr>,
              w2))"

definition process_question ::
  "env \<Rightarrow> world \<Rightarrow> string \<Rightarrow> string \<Rightarrow> string \<Rightarrow> string option \<Rightarrow> string \<Rightarrow> string option
     \<Rightarrow> string option \<Rightarrow> (exn + response) \<times> world" where
  \<comment> \<open>\<open>Inl\<close> is an exception that leaves \<open>process_question\<close>; \<open>Inr\<close> is the returned dict.\<close>
  "process_question env w project_id user_id question conversation_id model ip_address user_agent =
     (let log_entry =
            new_log_entry env project_id user_id question conversation_id model ip_address user_agent
      in case try_block env w log_entry project_id question conversation_id of
           (Inr resp, log_entry', w') \<Rightarrow> (Inr resp, w')
         | (Inl e, log_entry', w') \<Rightarrow> handler env e log_entry' w')"

definition execute_sql_directly ::
  "env \<Rightarrow> world \<Rightarrow> string \<Rightarrow> string \<Rightarrow> string \<Rightarrow> string option
     \<Rightarrow> (exn + direct_response) \<times> world" where
  \<comment> \<open>Lines 244 to 281.\<close>
  "execute_sql_directly env w project_id user_id sql conversation_id =
     (case (if is_dangerous_sql sql
            then (Inl (Exn ''Exception'' ''SQL contains forbidden operations''), w)
            else execute_query env w project_id sql) of
        (Inr result, w') \<Rightarrow>
          (Inr \<lparr>dresp_sql = sql, dresp_result = Some result,
                dresp_total_time_ms = total_time_ms env, dresp_error = None\<rparr>, w')
      | (Inl e, w') \<Rightarrow>
          (Inr \<lparr>dresp_sql = sql, dresp_result = None,
                dresp_total_time_ms = total_time_ms env, dresp_error = Some (exn_msg e)\<rparr>, w'))"

section \<open>The committed effect of saving to a conversation\<close>

text \<open>
  What a committed call of \<open>_save_to_conversation\<close> leaves in the two tables: the two turns it
  adds (none without a conversation id), and the conversations with the title of the named one
  filled in when it had none.
\<close>

definition expected_turns :: "string option \<Rightarrow> string \<Rightarrow> string \<Rightarrow> int \<Rightarrow> message list" where
  "expected_turns conversation_id question sql tokens =
     (case conversation_id of
        None \<Rightarrow> []
      | Some cid \<Rightarrow>
          if cid = [] then []
          else [\<lparr>msg_conversation_id = cid, msg_role = ''user'', msg_content = question,
                 msg_tokens_used = 0\<rparr>,
                \<lparr>msg_conversation_id = cid, msg_role = ''assistant'',
                 msg_content = ''Generated SQL:\<newline>```sql\<newline>'' @ sql @ ''\<newline>```'',
                 msg_tokens_used = tokens\<rparr>])"

definition expected_conversations ::
  "(string \<rightharpoonup> conversation) \<Rightarrow> string option \<Rightarrow> string \<Rightarrow> (string \<rightharpoonup> conversation)" where
  "expected_conversations convs conversation_id question =
     (case conversation_id of
        None \<Rightarrow> convs
      | Some cid \<Rightarrow>
          if cid = [] then convs
          else (case convs cid of
                  None \<Rightarrow> convs
                | Some conv \<Rightarrow>
                    if truthy (conv_title conv) then convs
                    else convs(cid \<mapsto> conv\<lparr>conv_title := Some (take 100 question)\<rparr>)))"

section \<open>An example world\<close>

text \<open>
  A project with credentials, a conversation without a title, an empty audit table, a language
  model that answers with a counting query, and a warehouse that returns one row.
\<close>

definition example_world :: world where
  "example_world =
     \<lparr>projects = [''p1'' \<mapsto> \<lparr>credentials_encrypted = Some ''{}''\<rparr>],
      conversations = [''c1'' \<mapsto> \<lparr>conv_title = None\<rparr>],
      messages = [],
      query_logs = [],
      session = [],
      warehouse_calls = []\<rparr>"

definition example_env :: env where
  "example_env =
     \<lparr>uuid4 = 1,
      llm_reply = Inr ''SELECT COUNT(*) FROM p.d.orders LIMIT 100'',
      generation_time_ms = 12,
      client_error = None,
      warehouse_reply =
        (\<lambda>sql. Inr \<lparr>raw_rows = [[(''f0_'', ''42'')]],
                      raw_schema = [\<lparr>col_name = ''f0_'', col_type = ''INTEGER''\<rparr>],
                      raw_total_bytes_processed = Some 1024\<rparr>),
      execution_time_ms = 30,
      total_time_ms = 50,
      commit_try = None,
      commit_handler = None\<rparr>"

section \<open>Facts about the string functions\<close>

lemma strip_unchanged:
  assumes "s \<noteq> []" "\<not> isspace (hd s)" "\<not> isspace (last s)"
  shows "strip s = s"
proof -
  from assms have a: "dropWhile isspace s = s"
    by (cases s) auto
  from assms have "rev s \<noteq> []" "\<not> isspace (hd (rev s))"
    by (simp_all add: hd_rev)
  then have "dropWhile isspace (rev s) = rev s"
    by (cases "rev s") auto
  with a show ?thesis by (simp add: strip_def)
qed

lemma str_replace_Nil: "old \<noteq> [] \<Longrightarrow> str_replace old new [] = []"
  by (subst str_replace.simps) simp

lemma str_replace_prefix:
  "old \<noteq> [] \<Longrightarrow> str_replace old new (old @ s) = new @ str_replace old new s"
  by (subst str_replace.simps) simp

lemma str_replace_Cons:
  "old \<noteq> [] \<Longrightarrow> \<not> prefix old (c # cs) \<Longrightarrow> str_replace old new (c # cs) = c # str_replace old new cs"
  by (subst str_replace.simps) simp

lemma str_replace_absent:
  "old \<noteq> [] \<Longrightarrow> \<not> sublist old s \<Longrightarrow> str_replace old new s = s"
proof (induction s)
  case Nil
  then show ?case by (simp add: str_replace_Nil)
next
  case (Cons c cs)
  from Cons.prems have "\<not> prefix old (c # cs)" "\<not> sublist old cs"
    by (auto simp: sublist_Cons_right)
  with Cons show ?case by (simp add: str_replace_Cons)
qed

lemma prefix_before_foreign:
  assumes "prefix old (xs @ y # ys)" "y \<notin> set old"
  shows "prefix old xs"
proof -
  from assms(1) consider "prefix old xs" | us where "old = xs @ us" "prefix us (y # ys)"
    by (auto simp: prefix_append)
  then show ?thesis
  proof cases
    case 1 then show ?thesis .
  next
    case 2
    with assms(2) have "us = []" by (cases us) auto
    with 2 show ?thesis by simp
  qed
qed

lemma sublist_across_foreign:
  assumes "y \<notin> set old" "old \<noteq> []"
  shows "sublist old (xs @ y # ys) \<longleftrightarrow> sublist old xs \<or> sublist old ys"
proof (induction xs)
  case Nil
  from assms have "\<not> prefix old (y # ys)" by (cases old) auto
  then show ?case using assms by (simp add: sublist_Cons_right)
next
  case (Cons x xs)
  have "prefix old (x # xs @ y # ys) \<longleftrightarrow> prefix old (x # xs)"
    using prefix_before_foreign[of old "x # xs" y ys] assms(1) prefix_prefix[of old "x # xs" "y # ys"]
    by auto
  with Cons show ?case by (auto simp: sublist_Cons_right)
qed

lemma sublist_strip: "sublist x (strip s) \<Longrightarrow> sublist x s"
proof -
  have "sublist (strip s) s"
    unfolding strip_def
    by (metis sublist_dropWhile sublist_order.order_trans sublist_rev_left)
  then show "sublist x (strip s) \<Longrightarrow> sublist x s"
    using sublist_order.order_trans by blast
qed

lemma unfence_keeps_non_backtick_head:
  "\<not> prefix ''`'' s \<Longrightarrow> \<not> prefix ''`'' (str_replace ''```'' [] s)"
proof (cases s)
  case Nil
  then show ?thesis by (simp add: str_replace_Nil)
next
  case (Cons c cs)
  assume "\<not> prefix ''`'' s"
  with Cons have "c \<noteq> CHR ''`''" by simp
  with Cons show ?thesis by (simp add: str_replace_Cons)
qed

lemma unfence_keeps_short_run:
  assumes "\<not> prefix ''``'' s"
  shows "\<not> prefix ''``'' (str_replace ''```'' [] s)"
proof (cases s)
  case Nil
  then show ?thesis by (simp add: str_replace_Nil)
next
  case (Cons c cs)
  show ?thesis
  proof (cases "c = CHR ''`''")
    case True
    with assms Cons have tail: "\<not> prefix ''`'' cs" by simp
    then have "\<not> prefix ''`'' (str_replace ''```'' [] cs)"
      by (rule unfence_keeps_non_backtick_head)
    moreover from tail have "\<not> prefix ''```'' (c # cs)" by (cases cs) auto
    then have "str_replace ''```'' [] (c # cs) = c # str_replace ''```'' [] cs"
      by (simp only: str_replace_Cons list.distinct not_False_eq_True)
    ultimately show ?thesis using Cons True by simp
  next
    case False
    with Cons show ?thesis by (simp add: str_replace_Cons)
  qed
qed

lemma unfence_complete_aux:
  "old = ''```'' \<Longrightarrow> new = [] \<Longrightarrow> \<not> sublist old (str_replace old new s)"
proof (induction old new s rule: str_replace.induct)
  case (1 old new s)
  show ?case
  proof (cases "prefix old s")
    case True
    then obtain r where r: "s = old @ r" by (auto simp: prefix_def)
    with 1 True have "\<not> sublist old (str_replace old new r)" by simp
    moreover from 1(4) have "str_replace old new (old @ r) = new @ str_replace old new r"
      by (intro str_replace_prefix) simp
    ultimately show ?thesis using r 1(5) by simp
  next
    case np: False
    show ?thesis
    proof (cases s)
      case Nil
      with 1(4) show ?thesis by (simp add: str_replace_Nil)
    next
      case (Cons c cs)
      with 1 np have ih: "\<not> sublist old (str_replace old new cs)" by simp
      from np Cons 1(4) have "c = CHR ''`'' \<Longrightarrow> \<not> prefix ''``'' cs" by simp
      then have "c = CHR ''`'' \<Longrightarrow> \<not> prefix ''``'' (str_replace ''```'' [] cs)"
        by (simp add: unfence_keeps_short_run)
      then have "\<not> prefix old (c # str_replace old new cs)"
        using 1(4,5) by auto
      with ih np Cons 1(4) show ?thesis
        by (simp add: str_replace_Cons sublist_Cons_right)
    qed
  qed
qed

lemma unfence_complete: "\<not> sublist ''```'' (str_replace ''```'' [] s)"
  by (rule unfence_complete_aux) simp_all

lemma startswith_sql_fence: "startswith s ''```sql'' \<Longrightarrow> startswith s ''```''"
  by (auto simp: startswith_def prefix_def)

lemma str_in_strip: "str_in x (strip s) \<Longrightarrow> str_in x s"
  unfolding str_in_def by (rule sublist_strip)

lemma str_in_longer: "str_in (x @ y) s \<Longrightarrow> str_in x s"
  unfolding str_in_def sublist_def by auto

section \<open>C10: fence removal is global\<close>

text \<open>
  Claim C10. A reply that, once stripped, does not begin with a triple-backtick fence is
  returned stripped and otherwise unchanged. A reply that begins with one loses every
  occurrence of the fence, also those in the middle of the statement (after the occurrences of
  the \<open>sql\<close>-tagged fence when the reply begins with that): no fence is left anywhere in the
  extracted statement.
\<close>

theorem extract_sql_removes_every_fence:
  "(\<not> startswith (strip r) ''```'' \<longrightarrow> extract_sql r = strip r) \<and>
   (startswith (strip r) ''```'' \<longrightarrow>
      \<not> str_in ''```'' (extract_sql r) \<and> \<not> str_in ''```sql'' (extract_sql r)) \<and>
   (startswith (strip r) ''```sql'' \<longrightarrow>
      extract_sql r = strip (str_replace ''```'' [] (str_replace ''```sql'' [] (strip r)))) \<and>
   (startswith (strip r) ''```'' \<and> \<not> startswith (strip r) ''```sql'' \<longrightarrow>
      extract_sql r = strip (str_replace ''```'' [] (strip r)))"
proof -
  have plain: "\<not> startswith (strip r) ''```'' \<Longrightarrow> extract_sql r = strip r"
    using startswith_sql_fence[of "strip r"] by (auto simp: extract_sql_def Let_def)
  have tagged: "startswith (strip r) ''```sql'' \<Longrightarrow>
      extract_sql r = strip (str_replace ''```'' [] (str_replace ''```sql'' [] (strip r)))"
    by (simp add: extract_sql_def Let_def)
  have bare: "startswith (strip r) ''```'' \<Longrightarrow> \<not> startswith (strip r) ''```sql'' \<Longrightarrow>
      extract_sql r = strip (str_replace ''```'' [] (strip r))"
    by (simp add: extract_sql_def Let_def)
  have none: "\<not> str_in ''```'' (extract_sql r)" if "startswith (strip r) ''```''"
  proof (cases "startswith (strip r) ''```sql''")
    case True
    show ?thesis
      unfolding tagged[OF True] using str_in_strip unfence_complete str_in_def by blast
  next
    case False
    show ?thesis
      unfolding bare[OF that False] using str_in_strip unfence_complete str_in_def by blast
  qed
  have "\<not> str_in ''```sql'' (extract_sql r)" if "startswith (strip r) ''```''"
    using none[OF that] str_in_longer[of "''```''" "''sql''" "extract_sql r"] by auto
  with plain tagged bare none show ?thesis by blast
qed

theorem extract_sql_removes_every_fence_witness:
  "startswith (strip ''  ```sql\<newline>SELECT ```x``` FROM t\<newline>``` '') ''```''
   \<and> extract_sql ''  ```sql\<newline>SELECT ```x``` FROM t\<newline>``` '' = ''SELECT x FROM t''
   \<and> \<not> str_in ''```'' (extract_sql ''  ```sql\<newline>SELECT ```x``` FROM t\<newline>``` '')
   \<and> \<not> startswith (strip '' SELECT 1 -- ``` '') ''```''
   \<and> extract_sql '' SELECT 1 -- ``` '' = ''SELECT 1 -- ```''"
proof -
  have a: "startswith (strip ''  ```sql\<newline>SELECT ```x``` FROM t\<newline>``` '') ''```''"
    by code_simp
  have b: "extract_sql ''  ```sql\<newline>SELECT ```x``` FROM t\<newline>``` '' = ''SELECT x FROM t''"
    by code_simp
  have c: "\<not> startswith (strip '' SELECT 1 -- ``` '') ''```''"
    by code_simp
  have d: "strip '' SELECT 1 -- ``` '' = ''SELECT 1 -- ```''"
    by code_simp
  from a extract_sql_removes_every_fence[of "''  ```sql\<newline>SELECT ```x``` FROM t\<newline>``` ''"]
  have e: "\<not> str_in ''```'' (extract_sql ''  ```sql\<newline>SELECT ```x``` FROM t\<newline>``` '')"
    by blast
  from c extract_sql_removes_every_fence[of "'' SELECT 1 -- ``` ''"]
  have f: "extract_sql '' SELECT 1 -- ``` '' = strip '' SELECT 1 -- ``` ''"
    by blast
  from a b c d e f show ?thesis by simp
qed

section \<open>C6: tagged and bare fences\<close>

lemma strip_fenced_sql: "strip (fenced_sql inner) = fenced_sql inner"
  by (rule strip_unchanged) (simp_all add: fenced_sql_def isspace_def)

lemma strip_fenced_bare: "strip (fenced_bare inner) = fenced_bare inner"
  by (rule strip_unchanged) (simp_all add: fenced_bare_def isspace_def)

lemma no_tag_in_body:
  assumes "\<not> str_in ''```sql'' inner"
  shows "\<not> sublist ''```sql'' (''\<newline>'' @ inner @ ''\<newline>'' @ ''```'')"
proof -
  have nl: "CHR ''\<newline>'' \<notin> set ''```sql''" by simp
  have tail: "\<not> sublist ''```sql'' ''```''"
    by (simp add: sublist_Cons_right)
  from assms have "\<not> sublist ''```sql'' (inner @ CHR ''\<newline>'' # ''```'')"
    using sublist_across_foreign[OF nl, of inner "''```''"] tail
    by (simp add: str_in_def)
  then have "\<not> sublist ''```sql'' ([] @ CHR ''\<newline>'' # inner @ CHR ''\<newline>'' # ''```'')"
    using sublist_across_foreign[OF nl, of "[]" "inner @ CHR ''\<newline>'' # ''```''"]
    by simp
  then show ?thesis by simp
qed

text \<open>
  Claim C6 says that the same inner text in a \<open>sql\<close>-tagged fence and in a bare fence gives
  the same statement, for every inner text. That fails when the inner text itself contains the
  tagged fence: the tagged reply loses the whole of it, the bare reply keeps the letters
  \<open>sql\<close>.
\<close>

theorem fences_disagree_counterexample:
  "extract_sql (fenced_sql ''SELECT 1 -- ```sql'') = ''SELECT 1 --''
   \<and> extract_sql (fenced_bare ''SELECT 1 -- ```sql'') = ''SELECT 1 -- sql''
   \<and> extract_sql (fenced_sql ''SELECT 1 -- ```sql'') \<noteq> extract_sql (fenced_bare ''SELECT 1 -- ```sql'')"
  by code_simp

text \<open>
  Claim C6, amended: for every inner text that does not contain the tagged fence, the two
  replies give the same statement.
\<close>

theorem fences_agree_without_inner_tag:
  assumes "\<not> str_in ''```sql'' inner"
  shows "extract_sql (fenced_sql inner) = extract_sql (fenced_bare inner)"
proof -
  let ?body = "''\<newline>'' @ inner @ ''\<newline>'' @ ''```''"
  have s1: "fenced_sql inner = ''```sql'' @ ?body" by (simp add: fenced_sql_def)
  have b1: "fenced_bare inner = ''```'' @ ?body" by (simp add: fenced_bare_def)
  have "str_replace ''```sql'' [] (''```sql'' @ ?body) = [] @ str_replace ''```sql'' [] ?body"
    by (rule str_replace_prefix) simp
  also have "\<dots> = ?body"
    using str_replace_absent[OF _ no_tag_in_body[OF assms], of "[]"] by simp
  finally have untag: "str_replace ''```sql'' [] (fenced_sql inner) = ?body"
    using s1 by simp
  have "str_replace ''```'' [] (''```'' @ ?body) = [] @ str_replace ''```'' [] ?body"
    by (rule str_replace_prefix) simp
  then have unfence: "str_replace ''```'' [] (fenced_bare inner) = str_replace ''```'' [] ?body"
    using b1 by simp
  have t: "startswith (fenced_sql inner) ''```sql''"
    by (simp add: startswith_def fenced_sql_def)
  have u: "\<not> startswith (fenced_bare inner) ''```sql''" "startswith (fenced_bare inner) ''```''"
    by (simp_all add: startswith_def fenced_bare_def)
  have "extract_sql (fenced_sql inner) = strip (str_replace ''```'' [] ?body)"
    using t untag by (simp add: extract_sql_def strip_fenced_sql)
  moreover have "extract_sql (fenced_bare inner) = strip (str_replace ''```'' [] ?body)"
    using u unfence by (simp add: extract_sql_def strip_fenced_bare)
  ultimately show ?thesis by simp
qed

theorem fences_agree_without_inner_tag_witness:
  "\<not> str_in ''```sql'' ''SELECT `a` FROM t''
   \<and> extract_sql (fenced_sql ''SELECT `a` FROM t'') = extract_sql (fenced_bare ''SELECT `a` FROM t'')
   \<and> extract_sql (fenced_bare ''SELECT `a` FROM t'') = ''SELECT `a` FROM t''"
proof -
  have h: "\<not> str_in ''```sql'' ''SELECT `a` FROM t''" by code_simp
  have v: "extract_sql (fenced_bare ''SELECT `a` FROM t'') = ''SELECT `a` FROM t''" by code_simp
  from h v fences_agree_without_inner_tag[OF h] show ?thesis by simp
qed

section \<open>C8: the token estimate\<close>

lemma length_template: "length template = 597"
  unfolding template_def by simp

text \<open>
  Claim C8. Whenever generation succeeds, the reported token count is the sum of the lengths of
  the prompt template, the question and the extracted statement, divided by four and rounded
  down; the statement is the post-processed reply.
\<close>

theorem tokens_used_estimate:
  assumes "generate_sql reply elapsed_ms question = Inr r"
  shows "gen_tokens_used r = (int (length template) + int (length question) + int (length (gen_sql r))) div 4
         \<and> (\<exists>content. reply = Inr content \<and> gen_sql r = extract_sql content)"
  using assms by (auto simp: generate_sql_def Let_def zdiv_int split: sum.splits)

theorem tokens_used_estimate_witness:
  "generate_sql (Inr '' ```sql\<newline>SELECT 1\<newline>``` '') 12 ''How many?''
     = Inr \<lparr>gen_sql = ''SELECT 1'', gen_tokens_used = 153, gen_generation_time_ms = 12\<rparr>
   \<and> (153::int) = (int (length template) + int (length ''How many?'') + int (length ''SELECT 1'')) div 4"
proof -
  have g: "generate_sql (Inr '' ```sql\<newline>SELECT 1\<newline>``` '') 12 ''How many?''
     = Inr \<lparr>gen_sql = ''SELECT 1'', gen_tokens_used = 153, gen_generation_time_ms = 12\<rparr>"
    by code_simp
  from tokens_used_estimate[OF g, THEN conjunct1]
  have t: "(153::int) = (int (length template) + int (length ''How many?'') + int (length ''SELECT 1'')) div 4"
    by (simp only: sql_result.select_convs)
  from g t show ?thesis by (rule conjI)
qed

section \<open>C5: the chart heuristic\<close>

text \<open>
  Claim C5. The chart suggestion depends only on the columns and the row count, and is decided
  by these rules, tried in this order: no rows or no columns, no suggestion; one column,
  \<open>metric\<close>; two columns with the first of type DATE, DATETIME or TIMESTAMP, \<open>line\<close> titled
  "Trend Over Time"; two columns with the first of type STRING and the second of type INTEGER,
  FLOAT or NUMERIC, \<open>bar\<close> titled "Comparison"; anything else (three or more columns, or two
  columns matching neither rule), \<open>table\<close>.
\<close>

theorem suggest_chart_rules:
  "suggest_chart r =
     (if res_rows_returned r = 0 \<or> res_schema r = [] then None
      else if length (res_schema r) = 1
        then Some \<lparr>chart_type = ''metric'', chart_title = ''Single Value''\<rparr>
      else if length (res_schema r) = 2
              \<and> col_type (res_schema r ! 0) \<in> {''DATE'', ''DATETIME'', ''TIMESTAMP''}
        then Some \<lparr>chart_type = ''line'', chart_title = ''Trend Over Time''\<rparr>
      else if length (res_schema r) = 2
              \<and> col_type (res_schema r ! 0) = ''STRING''
              \<and> col_type (res_schema r ! 1) \<in> {''INTEGER'', ''FLOAT'', ''NUMERIC''}
        then Some \<lparr>chart_type = ''bar'', chart_title = ''Comparison''\<rparr>
      else Some \<lparr>chart_type = ''table'',
                  chart_title = (if length (res_schema r) \<ge> 3 then ''Data Table'' else ''Data View'')\<rparr>)
   \<and> (res_schema r' = res_schema r \<and> res_rows_returned r' = res_rows_returned r
        \<longrightarrow> suggest_chart r' = suggest_chart r)"
  by (auto simp: suggest_chart_def Let_def)

theorem suggest_chart_rules_witness:
  "suggest_chart (result_of [''DATE'', ''FLOAT''] 3)
     = Some \<lparr>chart_type = ''line'', chart_title = ''Trend Over Time''\<rparr>
   \<and> suggest_chart (result_of [''STRING'', ''INTEGER''] 3)
     = Some \<lparr>chart_type = ''bar'', chart_title = ''Comparison''\<rparr>
   \<and> suggest_chart (result_of [''FLOAT''] 1)
     = Some \<lparr>chart_type = ''metric'', chart_title = ''Single Value''\<rparr>
   \<and> suggest_chart (result_of [''STRING'', ''STRING'', ''FLOAT''] 2)
     = Some \<lparr>chart_type = ''table'', chart_title = ''Data Table''\<rparr>
   \<and> suggest_chart (result_of [''STRING'', ''STRING''] 2)
     = Some \<lparr>chart_type = ''table'', chart_title = ''Data View''\<rparr>
   \<and> suggest_chart (result_of [''DATE'', ''FLOAT''] 0) = None
   \<and> suggest_chart ((result_of [''DATE'', ''FLOAT''] 3)\<lparr>res_execution_time_ms := 7\<rparr>)
     = suggest_chart (result_of [''DATE'', ''FLOAT''] 3)"
  using suggest_chart_rules[of "result_of [''DATE'', ''FLOAT''] 3"
          "(result_of [''DATE'', ''FLOAT''] 3)\<lparr>res_execution_time_ms := 7\<rparr>"]
        suggest_chart_rules[of "result_of [''STRING'', ''INTEGER''] 3"]
        suggest_chart_rules[of "result_of [''FLOAT''] 1"]
        suggest_chart_rules[of "result_of [''STRING'', ''STRING'', ''FLOAT''] 2"]
        suggest_chart_rules[of "result_of [''STRING'', ''STRING''] 2"]
        suggest_chart_rules[of "result_of [''DATE'', ''FLOAT''] 0"]
  by (simp add: result_of_def)

section \<open>C9: fallback rules and the empty project block\<close>

lemma active_global_instructions_empty:
  "active_global_instructions tbl = [] \<longleftrightarrow> filter gi_active tbl = []"
  unfolding active_global_instructions_def
  by (metis length_0_conv length_sort)

lemma active_project_instructions_empty:
  "active_project_instructions tbl pid = []
     \<longleftrightarrow> filter (\<lambda>i. pi_project_id i = pid \<and> pi_active i) tbl = []"
proof -
  have "active_project_instructions tbl pid = []
     \<longleftrightarrow> filter pi_active (filter (\<lambda>i. pi_project_id i = pid) tbl) = []"
    unfolding active_project_instructions_def by (metis length_0_conv length_sort)
  then show ?thesis by (simp add: conj_commute)
qed

lemma render_rule_fun:
  "render_rule = (\<lambda>r. ''- '' @ pm_key r @ '': '' @ pm_content r @ ''\<newline>'')"
  by (rule ext) (simp add: render_rule_def)

lemma render_instruction_fun:
  "render_instruction = (\<lambda>i. ''- '' @ pi_instruction_text i @ ''\<newline>'')"
  by (rule ext) (simp add: render_instruction_def)

text \<open>
  Claim C9. With no active global instruction the global block is the built-in ruleset,
  verbatim. With no memory entry and no active instruction for the project, the project block
  is the sentinel "No project-specific rules defined."; otherwise it is the business rules, each
  rendered as key: content, followed by the project's active instructions in order of
  priority.
\<close>

theorem context_blocks:
  "(filter gi_active gtbl = [] \<longrightarrow> load_global_memory gtbl = fallback_rules)
   \<and> (filter (\<lambda>r. pm_project_id r = pid) mtbl = []
        \<and> filter (\<lambda>i. pi_project_id i = pid \<and> pi_active i) itbl = []
      \<longrightarrow> load_project_memory mtbl itbl pid = no_rules)
   \<and> (filter (\<lambda>r. pm_project_id r = pid) mtbl \<noteq> []
        \<or> filter (\<lambda>i. pi_project_id i = pid \<and> pi_active i) itbl \<noteq> []
      \<longrightarrow> load_project_memory mtbl itbl pid =
            (if project_rules mtbl pid \<noteq> []
             then ''BUSINESS RULES & DOMAIN KNOWLEDGE:\<newline>''
                  @ concat (map (\<lambda>r. ''- '' @ pm_key r @ '': '' @ pm_content r @ ''\<newline>'')
                                (project_rules mtbl pid))
                  @ ''\<newline>''
             else [])
            @ (if active_project_instructions itbl pid \<noteq> []
               then ''PROJECT-SPECIFIC INSTRUCTIONS:\<newline>''
                    @ concat (map (\<lambda>i. ''- '' @ pi_instruction_text i @ ''\<newline>'')
                                  (active_project_instructions itbl pid))
               else []))
   \<and> project_rules mtbl pid = filter (\<lambda>r. pm_project_id r = pid) mtbl
   \<and> sorted (map pi_priority (active_project_instructions itbl pid))
   \<and> mset (active_project_instructions itbl pid)
       = mset (filter (\<lambda>i. pi_project_id i = pid \<and> pi_active i) itbl)"
proof -
  have g: "filter gi_active gtbl = [] \<Longrightarrow> load_global_memory gtbl = fallback_rules"
    by (simp add: load_global_memory_def active_global_instructions_empty)
  have e: "load_project_memory mtbl itbl pid = no_rules"
    if "filter (\<lambda>r. pm_project_id r = pid) mtbl = []"
       "filter (\<lambda>i. pi_project_id i = pid \<and> pi_active i) itbl = []"
    using that active_project_instructions_empty[of itbl pid]
    by (simp add: load_project_memory_def project_rules_def)
  have n: "load_project_memory mtbl itbl pid =
            (if project_rules mtbl pid \<noteq> []
             then ''BUSINESS RULES & DOMAIN KNOWLEDGE:\<newline>''
                  @ concat (map (\<lambda>r. ''- '' @ pm_key r @ '': '' @ pm_content r @ ''\<newline>'')
                                (project_rules mtbl pid))
                  @ ''\<newline>''
             else [])
            @ (if active_project_instructions itbl pid \<noteq> []
               then ''PROJECT-SPECIFIC INSTRUCTIONS:\<newline>''
                    @ concat (map (\<lambda>i. ''- '' @ pi_instruction_text i @ ''\<newline>'')
                                  (active_project_instructions itbl pid))
               else [])"
    if "filter (\<lambda>r. pm_project_id r = pid) mtbl \<noteq> []
        \<or> filter (\<lambda>i. pi_project_id i = pid \<and> pi_active i) itbl \<noteq> []"
    using that active_project_instructions_empty[of itbl pid]
    by (auto simp: load_project_memory_def project_rules_def Let_def render_rule_fun
          render_instruction_fun)
  have s: "sorted (map pi_priority (active_project_instructions itbl pid))"
    by (simp add: active_project_instructions_def)
  have m: "mset (active_project_instructions itbl pid)
       = mset (filter (\<lambda>i. pi_project_id i = pid \<and> pi_active i) itbl)"
    by (simp add: active_project_instructions_def conj_commute)
  from g e n s m show ?thesis by (simp add: project_rules_def)
qed


theorem context_blocks_witness:
  "filter gi_active example_globals = []
   \<and> load_global_memory example_globals =
''- Always use LIMIT clause for safety\<newline>- Never use DROP, DELETE, or UPDATE statements\<newline>- Use BigQuery standard SQL syntax\<newline>- Optimize queries for cost (avoid SELECT *, use partitions when available)''
   \<and> load_project_memory example_memory example_instructions ''p3''
       = ''No project-specific rules defined.''
   \<and> load_project_memory example_memory example_instructions ''p1''
       = ''BUSINESS RULES & DOMAIN KNOWLEDGE:\<newline>- revenue: gross - returns\<newline>\<newline>PROJECT-SPECIFIC INSTRUCTIONS:\<newline>- first\<newline>- second\<newline>''"
proof -
  have g: "filter gi_active example_globals = []" by code_simp
  have e: "filter (\<lambda>r. pm_project_id r = ''p3'') example_memory = []
           \<and> filter (\<lambda>i. pi_project_id i = ''p3'' \<and> pi_active i) example_instructions = []"
    by code_simp
  have n: "filter (\<lambda>r. pm_project_id r = ''p1'') example_memory \<noteq> []
           \<or> filter (\<lambda>i. pi_project_id i = ''p1'' \<and> pi_active i) example_instructions \<noteq> []"
    by code_simp
  have r: "project_rules example_memory ''p1''
           = [\<lparr>pm_project_id = ''p1'', pm_key = ''revenue'', pm_content = ''gross - returns''\<rparr>]"
    by code_simp
  have i: "active_project_instructions example_instructions ''p1''
     = [\<lparr>pi_project_id = ''p1'', pi_instruction_text = ''first'', pi_priority = 1, pi_active = True\<rparr>,
        \<lparr>pi_project_id = ''p1'', pi_instruction_text = ''second'', pi_priority = 5, pi_active = True\<rparr>]"
    by code_simp
  from g context_blocks[of example_globals]
  have 1: "load_global_memory example_globals = fallback_rules" by blast
  from e context_blocks[of _ "''p3''" example_memory example_instructions]
  have 2: "load_project_memory example_memory example_instructions ''p3'' = no_rules" by blast
  from n context_blocks[of _ "''p1''" example_memory example_instructions]
  have 3: "load_project_memory example_memory example_instructions ''p1''
       = ''BUSINESS RULES & DOMAIN KNOWLEDGE:\<newline>- revenue: gross - returns\<newline>\<newline>PROJECT-SPECIFIC INSTRUCTIONS:\<newline>- first\<newline>- second\<newline>''"
    unfolding r i by simp
  from g 1 2 3 show ?thesis by (simp add: fallback_rules_def no_rules_def)
qed

section \<open>C2: the safety gate\<close>

lemma prefix_upper_ci:
  "upper kw = kw \<Longrightarrow> prefix kw (upper s) = ci_prefix kw s"
proof (induction kw arbitrary: s)
  case Nil
  then show ?case by simp
next
  case (Cons k ks)
  then have k: "upper_char k = k" and ks: "upper ks = ks"
    by (simp_all add: upper_def)
  show ?case
  proof (cases s)
    case Nil
    then show ?thesis by (simp add: upper_def)
  next
    case (Cons c cs)
    with Cons.IH[OF ks, of cs] k show ?thesis
      by (auto simp: upper_def)
  qed
qed

lemma sublist_upper_ci:
  "upper kw = kw \<Longrightarrow> str_in kw (upper s) = ci_substring kw s"
proof (induction s)
  case Nil
  then show ?case by (cases kw) (simp_all add: upper_def str_in_def)
next
  case (Cons c cs)
  from Cons.prems have "prefix kw (upper (c # cs)) = ci_prefix kw (c # cs)"
    by (rule prefix_upper_ci)
  moreover have "upper (c # cs) = upper_char c # upper cs"
    by (simp add: upper_def)
  ultimately show ?case using Cons
    by (simp add: str_in_def sublist_Cons_right)
qed

lemma ci_prefix_iff:
  "ci_prefix kw s \<longleftrightarrow> (\<exists>w ss. s = w @ ss \<and> upper w = upper kw)"
proof (induction kw s rule: ci_prefix.induct)
  case (1 s)
  then show ?case by (simp add: upper_def)
next
  case (2 k ks)
  then show ?case by (simp add: upper_def)
next
  case (3 k ks c cs)
  show ?case
  proof
    assume "ci_prefix (k # ks) (c # cs)"
    with 3 obtain w ss where "cs = w @ ss" "upper w = upper ks" "upper_char c = upper_char k"
      by auto
    then have "c # cs = (c # w) @ ss \<and> upper (c # w) = upper (k # ks)"
      by (simp add: upper_def)
    then show "\<exists>w ss. c # cs = w @ ss \<and> upper w = upper (k # ks)" by blast
  next
    assume "\<exists>w ss. c # cs = w @ ss \<and> upper w = upper (k # ks)"
    then obtain w ss where w: "c # cs = w @ ss" "upper w = upper (k # ks)" by blast
    then obtain w' where "w = c # w'" "cs = w' @ ss"
      by (cases w) (auto simp: upper_def)
    with w 3 show "ci_prefix (k # ks) (c # cs)"
      by (auto simp: upper_def)
  qed
qed

lemma ci_substring_iff:
  "ci_substring kw s \<longleftrightarrow> (\<exists>ps w ss. s = ps @ w @ ss \<and> upper w = upper kw)"
proof (induction s)
  case Nil
  then show ?case by (auto simp: ci_prefix_iff upper_def)
next
  case (Cons c cs)
  show ?case
  proof
    assume "ci_substring kw (c # cs)"
    then consider "ci_prefix kw (c # cs)" | "ci_substring kw cs" by auto
    then show "\<exists>ps w ss. c # cs = ps @ w @ ss \<and> upper w = upper kw"
    proof cases
      case 1
      then obtain w ss where "c # cs = [] @ w @ ss \<and> upper w = upper kw"
        by (auto simp: ci_prefix_iff)
      then show ?thesis by blast
    next
      case 2
      with Cons obtain ps w ss where "cs = ps @ w @ ss" "upper w = upper kw" by blast
      then have "c # cs = (c # ps) @ w @ ss \<and> upper w = upper kw" by simp
      then show ?thesis by blast
    qed
  next
    assume "\<exists>ps w ss. c # cs = ps @ w @ ss \<and> upper w = upper kw"
    then obtain ps w ss where h: "c # cs = ps @ w @ ss" "upper w = upper kw" by blast
    show "ci_substring kw (c # cs)"
    proof (cases ps)
      case Nil
      with h have "ci_prefix kw (c # cs)" by (auto simp: ci_prefix_iff)
      then show ?thesis by simp
    next
      case (Cons p ps')
      with h have "cs = ps' @ w @ ss" by simp
      with h Cons.IH have "ci_substring kw cs" by blast
      then show ?thesis by simp
    qed
  qed
qed

lemma keywords_upper:
  "upper ''DROP'' = ''DROP''" "upper ''DELETE'' = ''DELETE''" "upper ''TRUNCATE'' = ''TRUNCATE''"
  "upper ''ALTER'' = ''ALTER''" "upper ''CREATE'' = ''CREATE''" "upper ''UPDATE'' = ''UPDATE''"
  by code_simp+

lemma is_dangerous_sql_iff:
  "is_dangerous_sql sql \<longleftrightarrow>
     ci_substring ''DROP'' sql \<or> ci_substring ''DELETE'' sql \<or> ci_substring ''TRUNCATE'' sql
     \<or> ci_substring ''ALTER'' sql \<or> ci_substring ''CREATE'' sql \<or> ci_substring ''UPDATE'' sql"
  by (simp add: is_dangerous_sql_def forbidden_keywords_def sublist_upper_ci keywords_upper
        del: ci_substring.simps)


subsection \<open>Warehouse calls made by the pipeline\<close>

lemma foldl_flush_warehouse_calls [simp]:
  "warehouse_calls (foldl flush w ps) = warehouse_calls w"
proof (induction ps arbitrary: w)
  case Nil
  then show ?case by simp
next
  case (Cons p ps)
  then show ?case by (cases p) (simp_all split: option.splits)
qed

lemma db_add_log_warehouse_calls [simp]:
  "warehouse_calls (db_add_log l w) = warehouse_calls w"
  by (simp add: db_add_log_def)

lemma save_to_conversation_warehouse_calls [simp]:
  "warehouse_calls (save_to_conversation w cid q sql t) = warehouse_calls w"
  by (simp add: save_to_conversation_def db_add_message_def Let_def split: option.splits)

lemma db_commit_warehouse_calls [simp]:
  "warehouse_calls (snd (db_commit outcome w)) = warehouse_calls w"
  by (simp add: db_commit_def split: option.splits)

lemma handler_warehouse_calls [simp]:
  "warehouse_calls (snd (handler env e l w)) = warehouse_calls w"
  by (simp add: handler_def db_commit_def Let_def split: option.splits)

lemma execute_query_calls:
  "warehouse_calls (snd (execute_query env w p sql)) =
     (if get_client env w p = Inr () then warehouse_calls w @ [sql] else warehouse_calls w)"
  by (auto simp: execute_query_def Let_def split: sum.splits)

lemma try_block_warehouse_calls:
  "warehouse_calls (snd (snd (try_block env w l p q c))) =
     (case generate_sql (llm_reply env) (generation_time_ms env) q of
        Inl e \<Rightarrow> warehouse_calls w
      | Inr g \<Rightarrow>
          if \<not> is_dangerous_sql (gen_sql g) \<and> get_client env w p = Inr ()
          then warehouse_calls w @ [gen_sql g] else warehouse_calls w)"
proof (cases "generate_sql (llm_reply env) (generation_time_ms env) q")
  case (Inl e)
  then show ?thesis by (simp add: try_block_def)
next
  case (Inr g)
  show ?thesis
  proof (cases "is_dangerous_sql (gen_sql g)")
    case True
    with Inr show ?thesis by (simp add: try_block_def)
  next
    case False
    obtain r w1 where x: "execute_query env w p (gen_sql g) = (r, w1)" by force
    then have w1: "warehouse_calls w1 =
        (if get_client env w p = Inr () then warehouse_calls w @ [gen_sql g] else warehouse_calls w)"
      using execute_query_calls[of env w p "gen_sql g"] by simp
    show ?thesis
    proof (cases r)
      case (Inl e)
      with Inr False x w1 show ?thesis by (simp add: try_block_def)
    next
      case r: (Inr res)
      from Inr False x r w1 show ?thesis
        by (simp add: try_block_def Let_def db_commit_def split: option.splits prod.splits sum.splits)
    qed
  qed
qed

lemma generate_sql_Inr:
  "generate_sql (Inr content) ms q =
     Inr \<lparr>gen_sql = extract_sql content,
          gen_tokens_used = int ((length template + length q + length (extract_sql content)) div 4),
          gen_generation_time_ms = ms\<rparr>"
  by (simp add: generate_sql_def Let_def)

lemma generate_sql_Inl:
  "generate_sql (Inl e) ms q = Inl (Exn ''Exception'' (''SQL generation failed: '' @ exn_msg e))"
  by (simp add: generate_sql_def)

lemma process_question_warehouse_calls:
  "warehouse_calls (snd (process_question env w p u q c m ip ua)) =
     (case llm_reply env of
        Inl e \<Rightarrow> warehouse_calls w
      | Inr content \<Rightarrow>
          if \<not> is_dangerous_sql (extract_sql content) \<and> get_client env w p = Inr ()
          then warehouse_calls w @ [extract_sql content] else warehouse_calls w)"
proof -
  let ?l = "new_log_entry env p u q c m ip ua"
  obtain r l' w' where t: "try_block env w ?l p q c = (r, l', w')"
    by (metis prod_cases3)
  have "warehouse_calls (snd (process_question env w p u q c m ip ua)) = warehouse_calls w'"
    using t by (cases r) (simp_all add: process_question_def)
  moreover have "warehouse_calls w' = warehouse_calls (snd (snd (try_block env w ?l p q c)))"
    using t by simp
  ultimately show ?thesis
    unfolding try_block_warehouse_calls
    by (cases "llm_reply env") (simp_all add: generate_sql_Inr generate_sql_Inl)
qed

lemma gate_rejects_in_pipeline:
  assumes "llm_reply env = Inr content" "is_dangerous_sql (extract_sql content)"
  shows "process_question env w p u q c m ip ua =
           handler env (Exn ''Exception'' ''SQL query contains forbidden operations (DROP, DELETE, etc.)'')
             ((new_log_entry env p u q c m ip ua)
                \<lparr>log_generated_sql := Some (extract_sql content),
                 log_sql_generation_time_ms := Some (generation_time_ms env),
                 log_sql_tokens_used :=
                   Some (int ((length template + length q + length (extract_sql content)) div 4))\<rparr>)
             w"
  using assms by (simp add: process_question_def try_block_def generate_sql_Inr Let_def)

lemma handler_result:
  "fst (handler env e l w) = Inr resp \<Longrightarrow>
     resp_error resp = Some (exn_msg e) \<and> resp_result resp = None
     \<and> resp_sql resp = log_generated_sql l \<and> resp_query_id resp = log_id l
     \<and> commit_handler env = None"
  by (auto simp: handler_def db_commit_def Let_def split: option.splits)

text \<open>
  Claim C2. The gate rejects a statement exactly when one of DROP, DELETE, TRUNCATE, ALTER,
  CREATE, UPDATE occurs in it as a case-insensitive substring, wherever it stands. A rejected
  statement never reaches the warehouse, neither in the direct-execution entry point (the call
  returns the error and changes nothing) nor in the question pipeline (the result carries the
  gate's error). A statement with none of the keywords passes the gate and is the one sent to
  the warehouse, provided a warehouse client can be obtained for the project.
\<close>

theorem safety_gate:
  "(is_dangerous_sql sql \<longleftrightarrow>
      ci_substring ''DROP'' sql \<or> ci_substring ''DELETE'' sql \<or> ci_substring ''TRUNCATE'' sql
      \<or> ci_substring ''ALTER'' sql \<or> ci_substring ''CREATE'' sql \<or> ci_substring ''UPDATE'' sql)
   \<and> (is_dangerous_sql sql \<longrightarrow>
        execute_sql_directly env w p u sql c =
          (Inr \<lparr>dresp_sql = sql, dresp_result = None, dresp_total_time_ms = total_time_ms env,
                dresp_error = Some ''SQL contains forbidden operations''\<rparr>, w))
   \<and> (\<not> is_dangerous_sql sql \<and> get_client env w p = Inr () \<longrightarrow>
        warehouse_calls (snd (execute_sql_directly env w p u sql c)) = warehouse_calls w @ [sql])
   \<and> (llm_reply env = Inr content \<and> is_dangerous_sql (extract_sql content) \<longrightarrow>
        warehouse_calls (snd (process_question env w p u q c m ip ua)) = warehouse_calls w
        \<and> (\<forall>resp. fst (process_question env w p u q c m ip ua) = Inr resp \<longrightarrow>
              resp_error resp = Some ''SQL query contains forbidden operations (DROP, DELETE, etc.)''
              \<and> resp_result resp = None))
   \<and> (llm_reply env = Inr content \<and> \<not> is_dangerous_sql (extract_sql content)
        \<and> get_client env w p = Inr () \<longrightarrow>
        warehouse_calls (snd (process_question env w p u q c m ip ua))
          = warehouse_calls w @ [extract_sql content])"
proof -
  have d1: "is_dangerous_sql sql \<Longrightarrow>
        execute_sql_directly env w p u sql c =
          (Inr \<lparr>dresp_sql = sql, dresp_result = None, dresp_total_time_ms = total_time_ms env,
                dresp_error = Some ''SQL contains forbidden operations''\<rparr>, w)"
    by (simp add: execute_sql_directly_def)
  have d2: "warehouse_calls (snd (execute_sql_directly env w p u sql c)) = warehouse_calls w @ [sql]"
    if "\<not> is_dangerous_sql sql" "get_client env w p = Inr ()"
  proof -
    obtain r w1 where x: "execute_query env w p sql = (r, w1)" by force
    with that execute_query_calls[of env w p sql] have "warehouse_calls w1 = warehouse_calls w @ [sql]"
      by simp
    with x that show ?thesis
      by (cases r) (simp_all add: execute_sql_directly_def)
  qed
  have p1: "warehouse_calls (snd (process_question env w p u q c m ip ua)) = warehouse_calls w"
    if "llm_reply env = Inr content" "is_dangerous_sql (extract_sql content)"
    using that by (simp add: process_question_warehouse_calls)
  have p2: "resp_error resp = Some ''SQL query contains forbidden operations (DROP, DELETE, etc.)''
              \<and> resp_result resp = None"
    if "llm_reply env = Inr content" "is_dangerous_sql (extract_sql content)"
       "fst (process_question env w p u q c m ip ua) = Inr resp" for resp
    using that(3) handler_result[of env _ _ w resp]
    unfolding gate_rejects_in_pipeline[OF that(1,2)] by fastforce
  have p3: "warehouse_calls (snd (process_question env w p u q c m ip ua))
          = warehouse_calls w @ [extract_sql content]"
    if "llm_reply env = Inr content" "\<not> is_dangerous_sql (extract_sql content)"
       "get_client env w p = Inr ()"
    using that by (simp add: process_question_warehouse_calls)
  from is_dangerous_sql_iff[of sql] d1 d2 p1 p2 p3 show ?thesis by blast
qed


theorem safety_gate_witness:
  "is_dangerous_sql ''SELECT 1 -- Drop nothing''
   \<and> ci_substring ''DROP'' ''SELECT 1 -- Drop nothing''
   \<and> execute_sql_directly example_env example_world ''p1'' ''u1'' ''SELECT 1 -- Drop nothing'' None
       = (Inr \<lparr>dresp_sql = ''SELECT 1 -- Drop nothing'', dresp_result = None,
               dresp_total_time_ms = 50,
               dresp_error = Some ''SQL contains forbidden operations''\<rparr>, example_world)
   \<and> warehouse_calls (snd (process_question
         (example_env\<lparr>llm_reply := Inr ''DELETE FROM p.d.orders''\<rparr>) example_world
         ''p1'' ''u1'' ''Remove all orders'' None ''m'' None None)) = []
   \<and> \<not> is_dangerous_sql ''SELECT 1''
   \<and> warehouse_calls (snd (execute_sql_directly example_env example_world ''p1'' ''u1''
         ''SELECT 1'' None)) = [''SELECT 1'']
   \<and> warehouse_calls (snd (process_question example_env example_world
         ''p1'' ''u1'' ''How many orders?'' None ''m'' None None))
       = [''SELECT COUNT(*) FROM p.d.orders LIMIT 100'']"
proof -
  let ?bad = "''SELECT 1 -- Drop nothing''"
  let ?env = "example_env\<lparr>llm_reply := Inr ''DELETE FROM p.d.orders''\<rparr>"
  have a: "is_dangerous_sql ?bad" by code_simp
  have b: "ci_substring ''DROP'' ?bad" by code_simp
  have c: "llm_reply ?env = Inr ''DELETE FROM p.d.orders''
           \<and> is_dangerous_sql (extract_sql ''DELETE FROM p.d.orders'')"
    by code_simp
  have d: "\<not> is_dangerous_sql ''SELECT 1''" by code_simp
  have e: "get_client example_env example_world ''p1'' = Inr ()" by code_simp
  have f: "llm_reply example_env = Inr ''SELECT COUNT(*) FROM p.d.orders LIMIT 100''
           \<and> \<not> is_dangerous_sql (extract_sql ''SELECT COUNT(*) FROM p.d.orders LIMIT 100'')
           \<and> extract_sql ''SELECT COUNT(*) FROM p.d.orders LIMIT 100''
               = ''SELECT COUNT(*) FROM p.d.orders LIMIT 100''"
    by code_simp
  have g: "total_time_ms example_env = 50" "warehouse_calls example_world = []"
    by code_simp+
  from a safety_gate[where sql = ?bad and env = example_env and w = example_world
         and p = "''p1''" and u = "''u1''" and c = None]
  have 1: "execute_sql_directly example_env example_world ''p1'' ''u1'' ?bad None
       = (Inr \<lparr>dresp_sql = ?bad, dresp_result = None,
               dresp_total_time_ms = total_time_ms example_env,
               dresp_error = Some ''SQL contains forbidden operations''\<rparr>, example_world)"
    by blast
  from c safety_gate[where env = ?env and w = example_world and p = "''p1''" and u = "''u1''"
         and c = None and content = "''DELETE FROM p.d.orders''" and q = "''Remove all orders''"
         and m = "''m''" and ip = None and ua = None]
  have 2: "warehouse_calls (snd (process_question ?env example_world
         ''p1'' ''u1'' ''Remove all orders'' None ''m'' None None)) = warehouse_calls example_world"
    by blast
  from d e safety_gate[where sql = "''SELECT 1''" and env = example_env and w = example_world
         and p = "''p1''" and u = "''u1''" and c = None]
  have 3: "warehouse_calls (snd (execute_sql_directly example_env example_world ''p1'' ''u1''
         ''SELECT 1'' None)) = warehouse_calls example_world @ [''SELECT 1'']"
    by blast
  from e f safety_gate[where env = example_env and w = example_world and p = "''p1''"
         and u = "''u1''" and c = None
         and content = "''SELECT COUNT(*) FROM p.d.orders LIMIT 100''"
         and q = "''How many orders?''" and m = "''m''" and ip = None and ua = None]
  have 4: "warehouse_calls (snd (process_question example_env example_world
         ''p1'' ''u1'' ''How many orders?'' None ''m'' None None))
       = warehouse_calls example_world @ [extract_sql ''SELECT COUNT(*) FROM p.d.orders LIMIT 100'']"
    by blast
  from a b d 1 2 3 4 f g show ?thesis by simp
qed

section \<open>The question pipeline, path by path\<close>

lemma execute_query_frame:
  "\<exists>calls. snd (execute_query env w p sql) = w\<lparr>warehouse_calls := calls\<rparr>"
proof (cases "get_client env w p")
  case (Inl e)
  then have "snd (execute_query env w p sql) = w\<lparr>warehouse_calls := warehouse_calls w\<rparr>"
    by (simp add: execute_query_def)
  then show ?thesis by blast
next
  case (Inr u)
  then have "snd (execute_query env w p sql) = w\<lparr>warehouse_calls := warehouse_calls w @ [sql]\<rparr>"
    by (simp add: execute_query_def Let_def split: sum.splits)
  then show ?thesis by blast
qed

lemma handler_clean:
  assumes "session w = []"
  shows "handler env e l w =
     (case commit_handler env of
        Some e2 \<Rightarrow> (Inl e2, w)
      | None \<Rightarrow>
          (Inr \<lparr>resp_query_id = log_id l,
                resp_sql = log_generated_sql l,
                resp_result = None,
                resp_insights = None,
                resp_suggested_chart = None,
                resp_tokens_used = (case log_sql_tokens_used l of None \<Rightarrow> 0 | Some t \<Rightarrow> t),
                resp_sql_generation_time_ms =
                  (case log_sql_generation_time_ms l of None \<Rightarrow> 0 | Some t \<Rightarrow> t),
                resp_total_time_ms = total_time_ms env,
                resp_error = Some (exn_msg e)\<rparr>,
           w\<lparr>query_logs := query_logs w
                @ [l\<lparr>log_execution_status := Some ''failed'',
                      log_error_message := Some (exn_msg e),
                      log_error_type := Some (exn_type e)\<rparr>]\<rparr>))"
  using assms
  by (cases "commit_handler env") (simp_all add: handler_def db_commit_def db_add_log_def Let_def)


lemma try_block_generation_failure:
  assumes "llm_reply env = Inl e0"
  shows "try_block env w l0 p q c =
           (Inl (Exn ''Exception'' (''SQL generation failed: '' @ exn_msg e0)), l0, w)"
  using assms by (simp add: try_block_def generate_sql_Inl)

lemma try_block_gate_rejection:
  assumes "llm_reply env = Inr content" "is_dangerous_sql (extract_sql content)"
  shows "\<exists>l. try_block env w l0 p q c =
           (Inl (Exn ''Exception'' ''SQL query contains forbidden operations (DROP, DELETE, etc.)''),
            l, w)
         \<and> log_generated_sql l = Some (extract_sql content)
         \<and> log_id l = log_id l0 \<and> log_user_question l = log_user_question l0"
  using assms by (simp add: try_block_def generate_sql_Inr Let_def)

lemma try_block_execution_failure:
  assumes "llm_reply env = Inr content" "\<not> is_dangerous_sql (extract_sql content)"
    and "fst (execute_query env w p (extract_sql content)) = Inl e"
  shows "\<exists>l calls. try_block env w l0 p q c = (Inl e, l, w\<lparr>warehouse_calls := calls\<rparr>)
         \<and> log_generated_sql l = Some (extract_sql content)
         \<and> log_id l = log_id l0 \<and> log_user_question l = log_user_question l0"
proof -
  obtain calls where "snd (execute_query env w p (extract_sql content)) = w\<lparr>warehouse_calls := calls\<rparr>"
    using execute_query_frame by blast
  with assms(3) have "execute_query env w p (extract_sql content) = (Inl e, w\<lparr>warehouse_calls := calls\<rparr>)"
    by (metis prod.collapse)
  with assms(1,2) show ?thesis
    by (auto simp: try_block_def generate_sql_Inr Let_def)
qed

lemma session_clean: "session w = [] \<Longrightarrow> w\<lparr>session := []\<rparr> = w"
  by (cases w) simp

lemma persist:
  assumes "session w = []"
  shows "snd (db_commit None
           (case c of
              None \<Rightarrow> db_add_log l w
            | Some cid \<Rightarrow>
                if cid \<noteq> [] then save_to_conversation (db_add_log l w) cid q sql t
                else db_add_log l w)) =
           w\<lparr>query_logs := query_logs w @ [l],
             messages := messages w @ expected_turns c q sql t,
             conversations := expected_conversations (conversations w) c q\<rparr>"
  using assms
  by (cases w)
     (auto simp: db_commit_def save_to_conversation_def db_add_log_def db_add_message_def
        Let_def expected_turns_def expected_conversations_def split: option.splits)

lemma persist_rolled_back:
  assumes "session w = []"
  shows "snd (db_commit (Some e)
           (case c of
              None \<Rightarrow> db_add_log l w
            | Some cid \<Rightarrow>
                if cid \<noteq> [] then save_to_conversation (db_add_log l w) cid q sql t
                else db_add_log l w)) = w"
  using assms
  by (cases w)
     (auto simp: db_commit_def save_to_conversation_def db_add_log_def db_add_message_def
        Let_def split: option.splits)

lemma db_commit_fst: "fst (db_commit outcome w) = (case outcome of Some e \<Rightarrow> Inl e | None \<Rightarrow> Inr ())"
  by (simp add: db_commit_def split: option.splits)

lemma try_block_persist:
  assumes "session w = []" "llm_reply env = Inr content"
    and "\<not> is_dangerous_sql (extract_sql content)"
    and "fst (execute_query env w p (extract_sql content)) = Inr r"
  shows "\<exists>l calls resp.
           try_block env w l0 p q c =
             (case commit_try env of
                Some e1 \<Rightarrow> (Inl e1, l, w\<lparr>warehouse_calls := calls\<rparr>)
              | None \<Rightarrow>
                  (Inr resp, l,
                   w\<lparr>warehouse_calls := calls,
                     query_logs := query_logs w @ [l],
                     messages := messages w
                       @ expected_turns c q (extract_sql content)
                           (int ((length template + length q + length (extract_sql content)) div 4)),
                     conversations := expected_conversations (conversations w) c q\<rparr>))
           \<and> log_generated_sql l = Some (extract_sql content)
           \<and> log_execution_status l = Some ''success''
           \<and> log_id l = log_id l0 \<and> log_user_question l = log_user_question l0
           \<and> resp_error resp = None \<and> resp_sql resp = Some (extract_sql content)
           \<and> resp_result resp = Some r \<and> resp_query_id resp = log_id l0
           \<and> resp_tokens_used resp
               = int ((length template + length q + length (extract_sql content)) div 4)"
proof -
  let ?sql = "extract_sql content"
  let ?t = "int ((length template + length q + length ?sql) div 4)"
  let ?l = "l0\<lparr>log_generated_sql := Some ?sql,
               log_sql_generation_time_ms := Some (generation_time_ms env),
               log_sql_tokens_used := Some ?t,
               log_execution_status := Some ''success'',
               log_execution_time_ms := Some (res_execution_time_ms r),
               log_rows_returned := Some (res_rows_returned r),
               log_bytes_processed := Some (res_bytes_processed r)\<rparr>"
  obtain calls where "snd (execute_query env w p ?sql) = w\<lparr>warehouse_calls := calls\<rparr>"
    using execute_query_frame by blast
  with assms(4) have x: "execute_query env w p ?sql = (Inr r, w\<lparr>warehouse_calls := calls\<rparr>)"
    by (metis prod.collapse)
  let ?w1 = "w\<lparr>warehouse_calls := calls\<rparr>"
  let ?w3 = "case c of
              None \<Rightarrow> db_add_log ?l ?w1
            | Some cid \<Rightarrow>
                if cid \<noteq> [] then save_to_conversation (db_add_log ?l ?w1) cid q ?sql ?t
                else db_add_log ?l ?w1"
  have s1: "session ?w1 = []" using assms(1) by simp
  have pc: "db_commit (commit_try env) ?w3 =
     (case commit_try env of
        Some e1 \<Rightarrow> (Inl e1, ?w1)
      | None \<Rightarrow> (Inr (),
          ?w1\<lparr>query_logs := query_logs ?w1 @ [?l],
               messages := messages ?w1 @ expected_turns c q ?sql ?t,
               conversations := expected_conversations (conversations ?w1) c q\<rparr>))"
  proof (cases "commit_try env")
    case None
    with persist[OF s1, where c = c and l = ?l and q = q and sql = ?sql and t = ?t] db_commit_fst[of None ?w3] show ?thesis
      by (metis (no_types, lifting) option.simps(4) prod.collapse)
  next
    case (Some e1)
    with persist_rolled_back[OF s1, where e = e1 and c = c and l = ?l and q = q and sql = ?sql and t = ?t] db_commit_fst[of "Some e1" ?w3]
    show ?thesis
      by (metis (no_types, lifting) option.simps(5) prod.collapse)
  qed
  have "try_block env w l0 p q c =
          (case db_commit (commit_try env) ?w3 of
             (Inl e, w4) \<Rightarrow> (Inl e, ?l, w4)
           | (Inr done, w4) \<Rightarrow>
               (Inr \<lparr>resp_query_id = log_id l0,
                     resp_sql = Some ?sql,
                     resp_result = Some r,
                     resp_insights = Some (generate_basic_insights r),
                     resp_suggested_chart = suggest_chart r,
                     resp_tokens_used = ?t,
                     resp_sql_generation_time_ms = generation_time_ms env,
                     resp_total_time_ms = total_time_ms env,
                     resp_error = None\<rparr>, ?l, w4))"
    using assms(2,3) x
    by (simp add: try_block_def generate_sql_Inr Let_def cong: option.case_cong if_cong
          split: prod.splits sum.splits)
  then show ?thesis
    unfolding pc
    by (cases "commit_try env")
       (auto intro!: exI[of _ ?l] exI[of _ calls]
          exI[of _ "\<lparr>resp_query_id = log_id l0,
                     resp_sql = Some ?sql,
                     resp_result = Some r,
                     resp_insights = Some (generate_basic_insights r),
                     resp_suggested_chart = suggest_chart r,
                     resp_tokens_used = ?t,
                     resp_sql_generation_time_ms = generation_time_ms env,
                     resp_total_time_ms = total_time_ms env,
                     resp_error = None\<rparr>"])
qed


lemma process_question_paths:
  assumes "session w = []"
  obtains
    (generation) e0 where
      "llm_reply env = Inl e0"
      "process_question env w p u q c m ip ua =
         handler env (Exn ''Exception'' (''SQL generation failed: '' @ exn_msg e0))
           (new_log_entry env p u q c m ip ua) w"
  | (gate) content l where
      "llm_reply env = Inr content" "is_dangerous_sql (extract_sql content)"
      "process_question env w p u q c m ip ua =
         handler env
           (Exn ''Exception'' ''SQL query contains forbidden operations (DROP, DELETE, etc.)'') l w"
      "log_generated_sql l = Some (extract_sql content)"
      "log_id l = uuid4 env" "log_user_question l = q"
  | (execution) content e l calls where
      "llm_reply env = Inr content" "\<not> is_dangerous_sql (extract_sql content)"
      "fst (execute_query env w p (extract_sql content)) = Inl e"
      "process_question env w p u q c m ip ua = handler env e l (w\<lparr>warehouse_calls := calls\<rparr>)"
      "log_generated_sql l = Some (extract_sql content)"
      "log_id l = uuid4 env" "log_user_question l = q"
  | (commit) content r e1 l calls where
      "llm_reply env = Inr content" "\<not> is_dangerous_sql (extract_sql content)"
      "fst (execute_query env w p (extract_sql content)) = Inr r"
      "commit_try env = Some e1"
      "process_question env w p u q c m ip ua = handler env e1 l (w\<lparr>warehouse_calls := calls\<rparr>)"
      "log_generated_sql l = Some (extract_sql content)"
      "log_id l = uuid4 env" "log_user_question l = q"
  | (success) content r l calls resp where
      "llm_reply env = Inr content" "\<not> is_dangerous_sql (extract_sql content)"
      "fst (execute_query env w p (extract_sql content)) = Inr r"
      "commit_try env = None"
      "process_question env w p u q c m ip ua =
         (Inr resp,
          w\<lparr>warehouse_calls := calls,
            query_logs := query_logs w @ [l],
            messages := messages w
              @ expected_turns c q (extract_sql content)
                  (int ((length template + length q + length (extract_sql content)) div 4)),
            conversations := expected_conversations (conversations w) c q\<rparr>)"
      "log_generated_sql l = Some (extract_sql content)"
      "log_execution_status l = Some ''success''"
      "log_id l = uuid4 env" "log_user_question l = q"
      "resp_error resp = None" "resp_sql resp = Some (extract_sql content)"
      "resp_result resp = Some r" "resp_query_id resp = uuid4 env"
      "resp_tokens_used resp
         = int ((length template + length q + length (extract_sql content)) div 4)"
proof -
  let ?l0 = "new_log_entry env p u q c m ip ua"
  have l0: "log_id ?l0 = uuid4 env" "log_user_question ?l0 = q"
    by (simp_all add: new_log_entry_def)
  show thesis
  proof (cases "llm_reply env")
    case (Inl e0)
    from try_block_generation_failure[OF Inl, of w ?l0 p q c]
    have "process_question env w p u q c m ip ua =
         handler env (Exn ''Exception'' (''SQL generation failed: '' @ exn_msg e0)) ?l0 w"
      by (simp add: process_question_def)
    with Inl show ?thesis by (rule generation)
  next
    case (Inr content)
    show ?thesis
    proof (cases "is_dangerous_sql (extract_sql content)")
      case True
      from try_block_gate_rejection[OF Inr True, of w ?l0 p q c] l0
      obtain l where l: "try_block env w ?l0 p q c =
           (Inl (Exn ''Exception'' ''SQL query contains forbidden operations (DROP, DELETE, etc.)''),
            l, w)"
         "log_generated_sql l = Some (extract_sql content)"
         "log_id l = uuid4 env" "log_user_question l = q"
        by auto
      from l(1) have "process_question env w p u q c m ip ua =
         handler env
           (Exn ''Exception'' ''SQL query contains forbidden operations (DROP, DELETE, etc.)'') l w"
        by (simp add: process_question_def)
      with Inr True l show ?thesis by (auto intro: gate)
    next
      case False
      show ?thesis
      proof (cases "fst (execute_query env w p (extract_sql content))")
        case (Inl e)
        from try_block_execution_failure[OF Inr False Inl, of ?l0 q c] l0
        obtain l calls where l: "try_block env w ?l0 p q c = (Inl e, l, w\<lparr>warehouse_calls := calls\<rparr>)"
           "log_generated_sql l = Some (extract_sql content)"
           "log_id l = uuid4 env" "log_user_question l = q"
          by auto
        from l(1) have "process_question env w p u q c m ip ua
            = handler env e l (w\<lparr>warehouse_calls := calls\<rparr>)"
          by (simp add: process_question_def)
        with Inr False Inl l show ?thesis by (auto intro: execution)
      next
        case r: (Inr r)
        from try_block_persist[OF assms Inr False r, of ?l0 q c] l0
        obtain l calls resp where l:
          "try_block env w ?l0 p q c =
             (case commit_try env of
                Some e1 \<Rightarrow> (Inl e1, l, w\<lparr>warehouse_calls := calls\<rparr>)
              | None \<Rightarrow>
                  (Inr resp, l,
                   w\<lparr>warehouse_calls := calls,
                     query_logs := query_logs w @ [l],
                     messages := messages w
                       @ expected_turns c q (extract_sql content)
                           (int ((length template + length q + length (extract_sql content)) div 4)),
                     conversations := expected_conversations (conversations w) c q\<rparr>))"
          "log_generated_sql l = Some (extract_sql content)"
          "log_execution_status l = Some ''success''"
          "log_id l = uuid4 env" "log_user_question l = q"
          "resp_error resp = None" "resp_sql resp = Some (extract_sql content)"
          "resp_result resp = Some r" "resp_query_id resp = uuid4 env"
          "resp_tokens_used resp
             = int ((length template + length q + length (extract_sql content)) div 4)"
          by auto
        show ?thesis
        proof (cases "commit_try env")
          case None
          with l(1) have "process_question env w p u q c m ip ua =
             (Inr resp,
              w\<lparr>warehouse_calls := calls,
                query_logs := query_logs w @ [l],
                messages := messages w
                  @ expected_turns c q (extract_sql content)
                      (int ((length template + length q + length (extract_sql content)) div 4)),
                conversations := expected_conversations (conversations w) c q\<rparr>)"
            by (simp add: process_question_def)
          with Inr False r None l show ?thesis by (auto intro: success)
        next
          case (Some e1)
          with l(1) have "process_question env w p u q c m ip ua
              = handler env e1 l (w\<lparr>warehouse_calls := calls\<rparr>)"
            by (simp add: process_question_def)
          with Inr False r Some l show ?thesis by (auto intro: commit)
        qed
      qed
    qed
  qed
qed

lemma execute_sql_directly_frame:
  "\<exists>calls. snd (execute_sql_directly env w p u sql c) = w\<lparr>warehouse_calls := calls\<rparr>"
proof (cases "is_dangerous_sql sql")
  case True
  then have "snd (execute_sql_directly env w p u sql c) = w\<lparr>warehouse_calls := warehouse_calls w\<rparr>"
    by (simp add: execute_sql_directly_def)
  then show ?thesis by blast
next
  case False
  obtain calls where "snd (execute_query env w p sql) = w\<lparr>warehouse_calls := calls\<rparr>"
    using execute_query_frame by blast
  with False have "snd (execute_sql_directly env w p u sql c) = w\<lparr>warehouse_calls := calls\<rparr>"
    by (cases "execute_query env w p sql") (auto simp: execute_sql_directly_def split: sum.splits)
  then show ?thesis by blast
qed

section \<open>C1: the audit record\<close>

text \<open>
  Claim C1 says that every invocation of either entry point leaves exactly one audit record.
  The direct-execution entry point never writes one: neither a run that executes the statement
  nor a run that the gate rejects adds a row to the audit table.
\<close>

theorem direct_execution_writes_no_audit_record:
  "fst (execute_sql_directly example_env example_world ''p1'' ''u1'' ''SELECT 1'' None)
     = Inr \<lparr>dresp_sql = ''SELECT 1'',
            dresp_result = Some \<lparr>res_rows = [[(''f0_'', ''42'')]],
                                 res_schema = [\<lparr>col_name = ''f0_'', col_type = ''INTEGER''\<rparr>],
                                 res_rows_returned = 1, res_execution_time_ms = 30,
                                 res_bytes_processed = 1024\<rparr>,
            dresp_total_time_ms = 50, dresp_error = None\<rparr>
   \<and> query_logs (snd (execute_sql_directly example_env example_world ''p1'' ''u1'' ''SELECT 1'' None))
       = []
   \<and> fst (execute_sql_directly example_env example_world ''p1'' ''u1'' ''DROP TABLE x'' None)
       = Inr \<lparr>dresp_sql = ''DROP TABLE x'', dresp_result = None, dresp_total_time_ms = 50,
              dresp_error = Some ''SQL contains forbidden operations''\<rparr>
   \<and> query_logs (snd (execute_sql_directly example_env example_world ''p1'' ''u1''
         ''DROP TABLE x'' None)) = []"
  by code_simp

text \<open>
  Claim C1, amended: started with nothing pending in the session, every invocation of
  \<open>process_question\<close> that returns a result has added exactly one audit record, carrying the
  identifier and the question of the invocation, with status \<open>success\<close> when the result has no
  error and \<open>failed\<close> when it has one. The invocation returns whenever the \<open>commit\<close> of the
  error handler does not raise; when that \<open>commit\<close> raises, its exception leaves the call
  and no audit record is added. The direct-execution entry point never adds an audit record.
\<close>

theorem audit_record_when_question_returns:
  assumes "session w = []"
  shows "(\<forall>resp. fst (process_question env w p u q c m ip ua) = Inr resp \<longrightarrow>
            (\<exists>l. query_logs (snd (process_question env w p u q c m ip ua)) = query_logs w @ [l]
                 \<and> log_id l = uuid4 env \<and> log_user_question l = q
                 \<and> log_execution_status l
                     = Some (if resp_error resp = None then ''success'' else ''failed'')))
       \<and> (\<forall>e. fst (process_question env w p u q c m ip ua) = Inl e \<longrightarrow>
            commit_handler env = Some e
            \<and> query_logs (snd (process_question env w p u q c m ip ua)) = query_logs w)
       \<and> (commit_handler env = None \<longrightarrow>
            (\<exists>resp. fst (process_question env w p u q c m ip ua) = Inr resp))
       \<and> query_logs (snd (execute_sql_directly env w p u sql c)) = query_logs w"
proof -
  have d: "query_logs (snd (execute_sql_directly env w p u sql c)) = query_logs w"
    using execute_sql_directly_frame[of env w p u sql c] by auto
  have s: "session (w\<lparr>warehouse_calls := calls\<rparr>) = []" for calls
    using assms by simp
  from assms show ?thesis
  proof (cases rule: process_question_paths[where env = env and p = p and u = u and q = q
           and c = c and m = m and ip = ip and ua = ua])
    case (generation e0)
    then show ?thesis using d
      by (auto simp: handler_clean[OF assms] new_log_entry_def split: option.splits)
  next
    case (gate content l)
    then show ?thesis using d
      by (auto simp: handler_clean[OF assms] split: option.splits)
  next
    case (execution content e l calls)
    then show ?thesis using d
      by (auto simp: handler_clean[OF s] split: option.splits)
  next
    case (commit content r e1 l calls)
    then show ?thesis using d
      by (auto simp: handler_clean[OF s] split: option.splits)
  next
    case (success content r l calls resp)
    then show ?thesis using d by auto
  qed
qed

theorem audit_record_when_question_returns_witness:
  "session example_world = []
   \<and> map log_execution_status (query_logs (snd (process_question example_env example_world
         ''p1'' ''u1'' ''How many orders?'' None ''m'' None None))) = [Some ''success'']
   \<and> map log_execution_status (query_logs (snd (process_question
         (example_env\<lparr>llm_reply := Inl (Exn ''APIConnectionError'' ''Connection error.'')\<rparr>)
         example_world ''p1'' ''u1'' ''How many orders?'' None ''m'' None None))) = [Some ''failed'']
   \<and> query_logs (snd (process_question
         (example_env\<lparr>llm_reply := Inl (Exn ''APIConnectionError'' ''Connection error.''),
                      commit_handler := Some (Exn ''OperationalError'' ''connection refused'')\<rparr>)
         example_world ''p1'' ''u1'' ''How many orders?'' None ''m'' None None)) = []"
proof -
  let ?fail = "example_env\<lparr>llm_reply := Inl (Exn ''APIConnectionError'' ''Connection error.'')\<rparr>"
  let ?down = "example_env\<lparr>llm_reply := Inl (Exn ''APIConnectionError'' ''Connection error.''),
                      commit_handler := Some (Exn ''OperationalError'' ''connection refused'')\<rparr>"
  have s: "session example_world = []" "query_logs example_world = []" by code_simp+
  have a: "fst (process_question example_env example_world
         ''p1'' ''u1'' ''How many orders?'' None ''m'' None None)
       = Inr \<lparr>resp_query_id = 1,
              resp_sql = Some ''SELECT COUNT(*) FROM p.d.orders LIMIT 100'',
              resp_result = Some \<lparr>res_rows = [[(''f0_'', ''42'')]],
                                   res_schema = [\<lparr>col_name = ''f0_'', col_type = ''INTEGER''\<rparr>],
                                   res_rows_returned = 1, res_execution_time_ms = 30,
                                   res_bytes_processed = 1024\<rparr>,
              resp_insights = Some ''Query returned 1 row(s). '',
              resp_suggested_chart = Some \<lparr>chart_type = ''metric'', chart_title = ''Single Value''\<rparr>,
              resp_tokens_used = 163, resp_sql_generation_time_ms = 12, resp_total_time_ms = 50,
              resp_error = None\<rparr>"
    by code_simp
  have b: "fst (process_question ?fail example_world
         ''p1'' ''u1'' ''How many orders?'' None ''m'' None None)
       = Inr \<lparr>resp_query_id = 1, resp_sql = None, resp_result = None, resp_insights = None,
              resp_suggested_chart = None, resp_tokens_used = 0, resp_sql_generation_time_ms = 0,
              resp_total_time_ms = 50,
              resp_error = Some ''SQL generation failed: Connection error.''\<rparr>"
    by code_simp
  have c: "fst (process_question ?down example_world
         ''p1'' ''u1'' ''How many orders?'' None ''m'' None None)
       = Inl (Exn ''OperationalError'' ''connection refused'')"
    by code_simp
  from a audit_record_when_question_returns[OF s(1), where env = example_env and p = "''p1''"
      and u = "''u1''" and q = "''How many orders?''" and c = None and m = "''m''" and ip = None
      and ua = None and sql = "''SELECT 1''"] s(2)
  have 1: "map log_execution_status (query_logs (snd (process_question example_env example_world
         ''p1'' ''u1'' ''How many orders?'' None ''m'' None None))) = [Some ''success'']"
    by auto
  from b audit_record_when_question_returns[OF s(1), where env = ?fail and p = "''p1''"
      and u = "''u1''" and q = "''How many orders?''" and c = None and m = "''m''" and ip = None
      and ua = None and sql = "''SELECT 1''"] s(2)
  have 2: "map log_execution_status (query_logs (snd (process_question ?fail example_world
         ''p1'' ''u1'' ''How many orders?'' None ''m'' None None))) = [Some ''failed'']"
    by auto
  from c audit_record_when_question_returns[OF s(1), where env = ?down and p = "''p1''"
      and u = "''u1''" and q = "''How many orders?''" and c = None and m = "''m''" and ip = None
      and ua = None and sql = "''SELECT 1''"] s(2)
  have 3: "query_logs (snd (process_question ?down example_world
         ''p1'' ''u1'' ''How many orders?'' None ''m'' None None)) = []"
    by auto
  from s(1) 1 2 3 show ?thesis by simp
qed

section \<open>C3: failures of generation, of the safety gate and of execution\<close>

text \<open>
  Claim C3 says that a failure of generation, of the gate or of execution is never raised past
  \<open>process_question\<close>. When the language model fails and the \<open>commit\<close> of the error handler
  fails too, the call raises and leaves no audit record.
\<close>

theorem generation_failure_can_still_raise:
  "fst (process_question
          (example_env\<lparr>llm_reply := Inl (Exn ''APIConnectionError'' ''Connection error.''),
                       commit_handler := Some (Exn ''OperationalError'' ''connection refused'')\<rparr>)
          example_world ''p1'' ''u1'' ''How many orders?'' None ''m'' None None)
     = Inl (Exn ''OperationalError'' ''connection refused'')
   \<and> query_logs (snd (process_question
          (example_env\<lparr>llm_reply := Inl (Exn ''APIConnectionError'' ''Connection error.''),
                       commit_handler := Some (Exn ''OperationalError'' ''connection refused'')\<rparr>)
          example_world ''p1'' ''u1'' ''How many orders?'' None ''m'' None None)) = []"
  by code_simp

text \<open>
  Claim C3, amended: when generation, the safety gate or warehouse execution raises and the
  \<open>commit\<close> of the error handler succeeds, the call returns a result whose error is the message
  of the failure and whose statement is absent when generation failed and the generated
  statement otherwise, with no execution result, and the one audit record it adds is \<open>failed\<close>
  with that message and the type of the exception. When the \<open>commit\<close> of the error handler
  raises, that exception leaves the call and no audit record is added.
\<close>

theorem stage_failure_becomes_error_result:
  assumes "session w = []"
    and "(\<exists>e0. llm_reply env = Inl e0
              \<and> e = Exn ''Exception'' (''SQL generation failed: '' @ exn_msg e0) \<and> gs = None)
         \<or> (\<exists>content. llm_reply env = Inr content \<and> is_dangerous_sql (extract_sql content)
              \<and> e = Exn ''Exception''
                      ''SQL query contains forbidden operations (DROP, DELETE, etc.)''
              \<and> gs = Some (extract_sql content))
         \<or> (\<exists>content. llm_reply env = Inr content \<and> \<not> is_dangerous_sql (extract_sql content)
              \<and> fst (execute_query env w p (extract_sql content)) = Inl e
              \<and> gs = Some (extract_sql content))"
  shows "(commit_handler env = None \<longrightarrow>
            (\<exists>resp l. fst (process_question env w p u q c m ip ua) = Inr resp
               \<and> resp_error resp = Some (exn_msg e) \<and> resp_sql resp = gs
               \<and> resp_result resp = None
               \<and> query_logs (snd (process_question env w p u q c m ip ua)) = query_logs w @ [l]
               \<and> log_id l = uuid4 env \<and> log_generated_sql l = gs
               \<and> log_execution_status l = Some ''failed''
               \<and> log_error_message l = Some (exn_msg e)
               \<and> log_error_type l = Some (exn_type e)))
       \<and> (\<forall>e2. commit_handler env = Some e2 \<longrightarrow>
            fst (process_question env w p u q c m ip ua) = Inl e2
            \<and> query_logs (snd (process_question env w p u q c m ip ua)) = query_logs w)"
proof -
  have s: "session (w\<lparr>warehouse_calls := calls\<rparr>) = []" for calls
    using assms(1) by simp
  from assms(1) show ?thesis
  proof (cases rule: process_question_paths[where env = env and p = p and u = u and q = q
           and c = c and m = m and ip = ip and ua = ua])
    case (generation e0)
    with assms(2) show ?thesis
      by (auto simp: handler_clean[OF assms(1)] new_log_entry_def split: option.splits)
  next
    case (gate content l)
    with assms(2) show ?thesis
      by (auto simp: handler_clean[OF assms(1)] split: option.splits)
  next
    case (execution content e' l calls)
    with assms(2) show ?thesis
      by (auto simp: handler_clean[OF s] split: option.splits)
  next
    case (commit content r e1 l calls)
    with assms(2) show ?thesis by auto
  next
    case (success content r l calls resp)
    with assms(2) show ?thesis by auto
  qed
qed

theorem stage_failure_becomes_error_result_witness:
  "session example_world = []
   \<and> (\<exists>resp l.
         fst (process_question
               (example_env\<lparr>llm_reply := Inl (Exn ''APIConnectionError'' ''Connection error.'')\<rparr>)
               example_world ''p1'' ''u1'' ''How many orders?'' None ''m'' None None) = Inr resp
         \<and> resp_error resp = Some ''SQL generation failed: Connection error.''
         \<and> resp_sql resp = None
         \<and> query_logs (snd (process_question
               (example_env\<lparr>llm_reply := Inl (Exn ''APIConnectionError'' ''Connection error.'')\<rparr>)
               example_world ''p1'' ''u1'' ''How many orders?'' None ''m'' None None)) = [l]
         \<and> log_generated_sql l = None
         \<and> log_execution_status l = Some ''failed''
         \<and> log_error_type l = Some ''Exception'')
   \<and> (\<exists>resp l.
         fst (process_question (example_env\<lparr>llm_reply := Inr ''DELETE FROM p.d.orders''\<rparr>)
               example_world ''p1'' ''u1'' ''Remove all orders'' None ''m'' None None) = Inr resp
         \<and> resp_error resp = Some ''SQL query contains forbidden operations (DROP, DELETE, etc.)''
         \<and> resp_sql resp = Some ''DELETE FROM p.d.orders''
         \<and> query_logs (snd (process_question
               (example_env\<lparr>llm_reply := Inr ''DELETE FROM p.d.orders''\<rparr>)
               example_world ''p1'' ''u1'' ''Remove all orders'' None ''m'' None None)) = [l]
         \<and> log_execution_status l = Some ''failed'')
   \<and> (\<exists>resp l.
         fst (process_question
               (example_env\<lparr>warehouse_reply := (\<lambda>sql. Inl (Exn ''BadRequest'' ''Syntax error''))\<rparr>)
               example_world ''p1'' ''u1'' ''How many orders?'' None ''m'' None None) = Inr resp
         \<and> resp_error resp = Some ''Query execution failed: Syntax error''
         \<and> resp_sql resp = Some ''SELECT COUNT(*) FROM p.d.orders LIMIT 100''
         \<and> query_logs (snd (process_question
               (example_env\<lparr>warehouse_reply := (\<lambda>sql. Inl (Exn ''BadRequest'' ''Syntax error''))\<rparr>)
               example_world ''p1'' ''u1'' ''How many orders?'' None ''m'' None None)) = [l]
         \<and> log_execution_status l = Some ''failed'')
   \<and> fst (process_question
            (example_env\<lparr>llm_reply := Inl (Exn ''APIConnectionError'' ''Connection error.''),
                         commit_handler := Some (Exn ''OperationalError'' ''connection refused'')\<rparr>)
            example_world ''p1'' ''u1'' ''How many orders?'' None ''m'' None None)
       = Inl (Exn ''OperationalError'' ''connection refused'')"
proof -
  let ?fail = "example_env\<lparr>llm_reply := Inl (Exn ''APIConnectionError'' ''Connection error.'')\<rparr>"
  let ?bad = "example_env\<lparr>llm_reply := Inr ''DELETE FROM p.d.orders''\<rparr>"
  let ?broken = "example_env\<lparr>warehouse_reply := (\<lambda>sql. Inl (Exn ''BadRequest'' ''Syntax error''))\<rparr>"
  let ?down = "example_env\<lparr>llm_reply := Inl (Exn ''APIConnectionError'' ''Connection error.''),
                      commit_handler := Some (Exn ''OperationalError'' ''connection refused'')\<rparr>"
  let ?sql = "''SELECT COUNT(*) FROM p.d.orders LIMIT 100''"
  have s: "session example_world = []" "query_logs example_world = []" by code_simp+
  have ok: "commit_handler ?fail = None" "commit_handler ?bad = None" "commit_handler ?broken = None"
    "uuid4 ?fail = 1"
    by code_simp+
  have d: "is_dangerous_sql (extract_sql ''DELETE FROM p.d.orders'')"
     "extract_sql ''DELETE FROM p.d.orders'' = ''DELETE FROM p.d.orders''"
     "\<not> is_dangerous_sql (extract_sql ?sql)" "extract_sql ?sql = ?sql"
     "llm_reply ?broken = Inr ?sql"
     "fst (execute_query ?broken example_world ''p1'' ?sql)
        = Inl (Exn ''Exception'' ''Query execution failed: Syntax error'')"
    by code_simp+
  have g: "(\<exists>e0. llm_reply ?fail = Inl e0
              \<and> Exn ''Exception'' ''SQL generation failed: Connection error.''
                  = Exn ''Exception'' (''SQL generation failed: '' @ exn_msg e0) \<and> None = None)
         \<or> (\<exists>content. llm_reply ?fail = Inr content \<and> is_dangerous_sql (extract_sql content)
              \<and> Exn ''Exception'' ''SQL generation failed: Connection error.''
                  = Exn ''Exception''
                      ''SQL query contains forbidden operations (DROP, DELETE, etc.)''
              \<and> None = Some (extract_sql content))
         \<or> (\<exists>content. llm_reply ?fail = Inr content \<and> \<not> is_dangerous_sql (extract_sql content)
              \<and> fst (execute_query ?fail example_world ''p1'' (extract_sql content))
                  = Inl (Exn ''Exception'' ''SQL generation failed: Connection error.'')
              \<and> None = Some (extract_sql content))"
    by simp
  have g2: "(\<exists>e0. llm_reply ?down = Inl e0
              \<and> Exn ''Exception'' ''SQL generation failed: Connection error.''
                  = Exn ''Exception'' (''SQL generation failed: '' @ exn_msg e0) \<and> None = None)
         \<or> (\<exists>content. llm_reply ?down = Inr content \<and> is_dangerous_sql (extract_sql content)
              \<and> Exn ''Exception'' ''SQL generation failed: Connection error.''
                  = Exn ''Exception''
                      ''SQL query contains forbidden operations (DROP, DELETE, etc.)''
              \<and> None = Some (extract_sql content))
         \<or> (\<exists>content. llm_reply ?down = Inr content \<and> \<not> is_dangerous_sql (extract_sql content)
              \<and> fst (execute_query ?down example_world ''p1'' (extract_sql content))
                  = Inl (Exn ''Exception'' ''SQL generation failed: Connection error.'')
              \<and> None = Some (extract_sql content))"
    by simp
  have b: "(\<exists>e0. llm_reply ?bad = Inl e0
              \<and> Exn ''Exception'' ''SQL query contains forbidden operations (DROP, DELETE, etc.)''
                  = Exn ''Exception'' (''SQL generation failed: '' @ exn_msg e0)
              \<and> Some ''DELETE FROM p.d.orders'' = None)
         \<or> (\<exists>content. llm_reply ?bad = Inr content \<and> is_dangerous_sql (extract_sql content)
              \<and> Exn ''Exception'' ''SQL query contains forbidden operations (DROP, DELETE, etc.)''
                  = Exn ''Exception''
                      ''SQL query contains forbidden operations (DROP, DELETE, etc.)''
              \<and> Some ''DELETE FROM p.d.orders'' = Some (extract_sql content))
         \<or> (\<exists>content. llm_reply ?bad = Inr content \<and> \<not> is_dangerous_sql (extract_sql content)
              \<and> fst (execute_query ?bad example_world ''p1'' (extract_sql content))
                  = Inl (Exn ''Exception''
                          ''SQL query contains forbidden operations (DROP, DELETE, etc.)'')
              \<and> Some ''DELETE FROM p.d.orders'' = Some (extract_sql content))"
    using d(1,2) by simp
  have x: "(\<exists>e0. llm_reply ?broken = Inl e0
              \<and> Exn ''Exception'' ''Query execution failed: Syntax error''
                  = Exn ''Exception'' (''SQL generation failed: '' @ exn_msg e0)
              \<and> Some ?sql = None)
         \<or> (\<exists>content. llm_reply ?broken = Inr content \<and> is_dangerous_sql (extract_sql content)
              \<and> Exn ''Exception'' ''Query execution failed: Syntax error''
                  = Exn ''Exception''
                      ''SQL query contains forbidden operations (DROP, DELETE, etc.)''
              \<and> Some ?sql = Some (extract_sql content))
         \<or> (\<exists>content. llm_reply ?broken = Inr content \<and> \<not> is_dangerous_sql (extract_sql content)
              \<and> fst (execute_query ?broken example_world ''p1'' (extract_sql content))
                  = Inl (Exn ''Exception'' ''Query execution failed: Syntax error'')
              \<and> Some ?sql = Some (extract_sql content))"
    using d(3-6) by auto
  from stage_failure_becomes_error_result[OF s(1) g, where u = "''u1''"
      and q = "''How many orders?''" and c = None and m = "''m''" and ip = None and ua = None]
    ok s(2)
  have 1: "\<exists>resp l.
         fst (process_question ?fail example_world ''p1'' ''u1'' ''How many orders?'' None ''m''
               None None) = Inr resp
         \<and> resp_error resp = Some ''SQL generation failed: Connection error.''
         \<and> resp_sql resp = None
         \<and> query_logs (snd (process_question ?fail example_world ''p1'' ''u1''
               ''How many orders?'' None ''m'' None None)) = [l]
         \<and> log_generated_sql l = None
         \<and> log_execution_status l = Some ''failed''
         \<and> log_error_type l = Some ''Exception''"
    by auto
  from stage_failure_becomes_error_result[OF s(1) b, where u = "''u1''"
      and q = "''Remove all orders''" and c = None and m = "''m''" and ip = None and ua = None]
    ok s(2)
  have 2: "\<exists>resp l.
         fst (process_question ?bad example_world ''p1'' ''u1'' ''Remove all orders'' None ''m''
               None None) = Inr resp
         \<and> resp_error resp = Some ''SQL query contains forbidden operations (DROP, DELETE, etc.)''
         \<and> resp_sql resp = Some ''DELETE FROM p.d.orders''
         \<and> query_logs (snd (process_question ?bad example_world ''p1'' ''u1''
               ''Remove all orders'' None ''m'' None None)) = [l]
         \<and> log_execution_status l = Some ''failed''"
    by auto
  from stage_failure_becomes_error_result[OF s(1) x, where u = "''u1''"
      and q = "''How many orders?''" and c = None and m = "''m''" and ip = None and ua = None]
    ok s(2)
  have 3: "\<exists>resp l.
         fst (process_question ?broken example_world ''p1'' ''u1'' ''How many orders?'' None ''m''
               None None) = Inr resp
         \<and> resp_error resp = Some ''Query execution failed: Syntax error''
         \<and> resp_sql resp = Some ?sql
         \<and> query_logs (snd (process_question ?broken example_world ''p1'' ''u1''
               ''How many orders?'' None ''m'' None None)) = [l]
         \<and> log_execution_status l = Some ''failed''"
    by auto
  from stage_failure_becomes_error_result[OF s(1) g2, where u = "''u1''"
      and q = "''How many orders?''" and c = None and m = "''m''" and ip = None and ua = None]
  have 4: "fst (process_question ?down example_world ''p1'' ''u1'' ''How many orders?'' None ''m''
               None None) = Inl (Exn ''OperationalError'' ''connection refused'')"
    by simp
  from s(1) 1 2 3 4 show ?thesis by blast
qed

section \<open>C4: failures of persistence\<close>




section \<open>C7: conversation turns\<close>

text \<open>
  Claim C7. When \<open>process_question\<close> succeeds and a non-empty conversation id was supplied,
  exactly two turns are appended, the user's with the question and the assistant's with the
  generated statement fenced for display, and the title of the conversation becomes the first
  100 characters of the question exactly when it had none (absent or empty). When the call
  raises or returns an error, or no conversation id was supplied, and on every run of the
  direct-execution entry point, the turns and the conversations are unchanged.
\<close>

theorem conversation_turns_only_on_success:
  assumes "session w = []"
  shows "(fst (process_question env w p u q c m ip ua) = Inr resp \<and> resp_error resp = None
            \<and> c = Some cid \<and> cid \<noteq> [] \<longrightarrow>
            (\<exists>sql. resp_sql resp = Some sql
               \<and> messages (snd (process_question env w p u q c m ip ua)) =
                   messages w @
                     [\<lparr>msg_conversation_id = cid, msg_role = ''user'', msg_content = q,
                       msg_tokens_used = 0\<rparr>,
                      \<lparr>msg_conversation_id = cid, msg_role = ''assistant'',
                       msg_content = ''Generated SQL:\<newline>```sql\<newline>'' @ sql @ ''\<newline>```'',
                       msg_tokens_used = resp_tokens_used resp\<rparr>])
            \<and> conversations (snd (process_question env w p u q c m ip ua)) =
                (case conversations w cid of
                   None \<Rightarrow> conversations w
                 | Some conv \<Rightarrow>
                     if conv_title conv = None \<or> conv_title conv = Some []
                     then (conversations w)(cid \<mapsto> conv\<lparr>conv_title := Some (take 100 q)\<rparr>)
                     else conversations w))
       \<and> ((\<exists>e. fst (process_question env w p u q c m ip ua) = Inl e)
            \<or> (\<exists>r. fst (process_question env w p u q c m ip ua) = Inr r \<and> resp_error r \<noteq> None)
            \<or> c = None \<or> c = Some [] \<longrightarrow>
            messages (snd (process_question env w p u q c m ip ua)) = messages w
            \<and> conversations (snd (process_question env w p u q c m ip ua)) = conversations w)
       \<and> messages (snd (execute_sql_directly env w p u sql c)) = messages w
       \<and> conversations (snd (execute_sql_directly env w p u sql c)) = conversations w"
proof -
  have d: "messages (snd (execute_sql_directly env w p u sql c)) = messages w
       \<and> conversations (snd (execute_sql_directly env w p u sql c)) = conversations w"
    using execute_sql_directly_frame[of env w p u sql c] by auto
  have s: "session (w\<lparr>warehouse_calls := calls\<rparr>) = []" for calls
    using assms(1) by simp
  from assms(1) show ?thesis
  proof (cases rule: process_question_paths[where env = env and p = p and u = u and q = q
           and c = c and m = m and ip = ip and ua = ua])
    case (generation e0)
    then show ?thesis using d
      by (auto simp: handler_clean[OF assms(1)] split: option.splits)
  next
    case (gate content l)
    then show ?thesis using d
      by (auto simp: handler_clean[OF assms(1)] split: option.splits)
  next
    case (execution content e' l calls)
    then show ?thesis using d
      by (auto simp: handler_clean[OF s] split: option.splits)
  next
    case (commit content r e1 l calls)
    then show ?thesis using d
      by (auto simp: handler_clean[OF s] split: option.splits)
  next
    case (success content r l calls resp')
    then show ?thesis using d
      by (auto simp: expected_turns_def expected_conversations_def truthy_def
            split: option.splits)
  qed
qed

theorem conversation_turns_only_on_success_witness:
  "session example_world = []
   \<and> messages (snd (process_question example_env example_world ''p1'' ''u1''
        ''How many orders?'' (Some ''c1'') ''m'' None None))
       = [\<lparr>msg_conversation_id = ''c1'', msg_role = ''user'',
           msg_content = ''How many orders?'', msg_tokens_used = 0\<rparr>,
          \<lparr>msg_conversation_id = ''c1'', msg_role = ''assistant'',
           msg_content =
             ''Generated SQL:\<newline>```sql\<newline>SELECT COUNT(*) FROM p.d.orders LIMIT 100\<newline>```'',
           msg_tokens_used = 163\<rparr>]
   \<and> conversations (snd (process_question example_env example_world ''p1'' ''u1''
        ''How many orders?'' (Some ''c1'') ''m'' None None)) ''c1''
       = Some \<lparr>conv_title = Some ''How many orders?''\<rparr>
   \<and> messages (snd (process_question
        (example_env\<lparr>llm_reply := Inl (Exn ''APIConnectionError'' ''Connection error.'')\<rparr>)
        example_world ''p1'' ''u1'' ''How many orders?'' (Some ''c1'') ''m'' None None)) = []
   \<and> conversations (snd (process_question
        (example_env\<lparr>llm_reply := Inl (Exn ''APIConnectionError'' ''Connection error.'')\<rparr>)
        example_world ''p1'' ''u1'' ''How many orders?'' (Some ''c1'') ''m'' None None)) ''c1''
       = Some \<lparr>conv_title = None\<rparr>
   \<and> messages (snd (process_question example_env example_world ''p1'' ''u1''
        ''How many orders?'' None ''m'' None None)) = []
   \<and> messages (snd (execute_sql_directly example_env example_world ''p1'' ''u1'' ''SELECT 1''
        (Some ''c1''))) = []"
proof -
  let ?fail = "example_env\<lparr>llm_reply := Inl (Exn ''APIConnectionError'' ''Connection error.'')\<rparr>"
  let ?ok = "\<lparr>resp_query_id = 1,
              resp_sql = Some ''SELECT COUNT(*) FROM p.d.orders LIMIT 100'',
              resp_result = Some \<lparr>res_rows = [[(''f0_'', ''42'')]],
                                   res_schema = [\<lparr>col_name = ''f0_'', col_type = ''INTEGER''\<rparr>],
                                   res_rows_returned = 1, res_execution_time_ms = 30,
                                   res_bytes_processed = 1024\<rparr>,
              resp_insights = Some ''Query returned 1 row(s). '',
              resp_suggested_chart = Some \<lparr>chart_type = ''metric'', chart_title = ''Single Value''\<rparr>,
              resp_tokens_used = 163, resp_sql_generation_time_ms = 12, resp_total_time_ms = 50,
              resp_error = None\<rparr>"
  let ?err = "\<lparr>resp_query_id = 1, resp_sql = None, resp_result = None, resp_insights = None,
              resp_suggested_chart = None, resp_tokens_used = 0, resp_sql_generation_time_ms = 0,
              resp_total_time_ms = 50,
              resp_error = Some ''SQL generation failed: Connection error.''\<rparr>"
  have s: "session example_world = []" "messages example_world = []"
      "conversations example_world ''c1'' = Some \<lparr>conv_title = None\<rparr>"
    by code_simp+
  have a: "fst (process_question example_env example_world
         ''p1'' ''u1'' ''How many orders?'' (Some ''c1'') ''m'' None None) = Inr ?ok"
    by code_simp
  have b: "fst (process_question ?fail example_world
         ''p1'' ''u1'' ''How many orders?'' (Some ''c1'') ''m'' None None) = Inr ?err"
    by code_simp
  from a s(2,3) conversation_turns_only_on_success[OF s(1), where env = example_env
      and p = "''p1''" and u = "''u1''" and q = "''How many orders?''" and c = "Some ''c1''"
      and m = "''m''" and ip = None and ua = None and sql = "''SELECT 1''" and cid = "''c1''"
      and resp = ?ok]
  have 1: "messages (snd (process_question example_env example_world ''p1'' ''u1''
        ''How many orders?'' (Some ''c1'') ''m'' None None))
       = [\<lparr>msg_conversation_id = ''c1'', msg_role = ''user'',
           msg_content = ''How many orders?'', msg_tokens_used = 0\<rparr>,
          \<lparr>msg_conversation_id = ''c1'', msg_role = ''assistant'',
           msg_content =
             ''Generated SQL:\<newline>```sql\<newline>SELECT COUNT(*) FROM p.d.orders LIMIT 100\<newline>```'',
           msg_tokens_used = 163\<rparr>]
     \<and> conversations (snd (process_question example_env example_world ''p1'' ''u1''
        ''How many orders?'' (Some ''c1'') ''m'' None None)) ''c1''
       = Some \<lparr>conv_title = Some ''How many orders?''\<rparr>"
    by simp
  from b s(2,3) conversation_turns_only_on_success[OF s(1), where env = ?fail
      and p = "''p1''" and u = "''u1''" and q = "''How many orders?''" and c = "Some ''c1''"
      and m = "''m''" and ip = None and ua = None and sql = "''SELECT 1''" and cid = "''c1''"
      and resp = ?err]
  have 2: "messages (snd (process_question ?fail example_world ''p1'' ''u1''
        ''How many orders?'' (Some ''c1'') ''m'' None None)) = []
     \<and> conversations (snd (process_question ?fail example_world ''p1'' ''u1''
        ''How many orders?'' (Some ''c1'') ''m'' None None)) ''c1'' = Some \<lparr>conv_title = None\<rparr>"
    by auto
  from s(2) conversation_turns_only_on_success[OF s(1), where env = example_env
      and p = "''p1''" and u = "''u1''" and q = "''How many orders?''" and c = None
      and m = "''m''" and ip = None and ua = None and sql = "''SELECT 1''" and cid = "''c1''"
      and resp = ?ok]
  have 3: "messages (snd (process_question example_env example_world ''p1'' ''u1''
        ''How many orders?'' None ''m'' None None)) = []"
    by simp
  from s(2) conversation_turns_only_on_success[OF s(1), where env = example_env
      and p = "''p1''" and u = "''u1''" and sql = "''SELECT 1''" and c = "Some ''c1''"
      and q = "''How many orders?''" and m = "''m''" and ip = None and ua = None 
      and cid = "''c1''" and resp = ?ok]
  have 4: "messages (snd (execute_sql_directly example_env example_world ''p1'' ''u1'' ''SELECT 1''
        (Some ''c1''))) = []"
    by simp
  from s(1) 1 2 3 4 show ?thesis by simp
qed

end
